theory Spec2Isabelle
  imports Main
begin


section \<open>Values exchanged with the handlers\<close>

text \<open>
  JSON values as Python sees them after parsing. The number type \<open>'n\<close> is left open:
  the handlers only test a number for zero, subtract a distance from one and compare
  distances. An object is a Python dict, written as an association list with distinct keys.
\<close>

datatype 'n json =
    JNull
  | JBool bool
  | JNum 'n
  | JStr string
  | JArr "'n json list"
  | JObj "(string \<times> 'n json) list"

text \<open>Python truthiness, as used by \<open>not item_id\<close> and \<open>not query_text\<close>.\<close>

fun truthy :: "'n::zero json \<Rightarrow> bool" where
  "truthy JNull = False"
| "truthy (JBool b) = b"
| "truthy (JNum n) = (n \<noteq> 0)"
| "truthy (JStr s) = (s \<noteq> [])"
| "truthy (JArr xs) = (xs \<noteq> [])"
| "truthy (JObj kvs) = (kvs \<noteq> [])"

text \<open>\<open>d.get(k, dflt)\<close> on a dict; \<open>d.get(k)\<close> is \<open>dict_get d k JNull\<close>.\<close>

definition dict_get :: "(string \<times> 'n json) list \<Rightarrow> string \<Rightarrow> 'n json \<Rightarrow> 'n json" where
  "dict_get d k dflt = (case map_of d k of None \<Rightarrow> dflt | Some v \<Rightarrow> v)"

text \<open>
  Exceptions. \<open>ValueError\<close> carries the message the source gives it; \<open>AttributeError\<close> and
  \<open>TypeError\<close> are raised by Python itself (a method call on \<open>None\<close> or on a non-dict,
  \<open>float(None)\<close>); \<open>External\<close> is anything raised by a collaborator (object store, AI
  provider, database driver).
\<close>

datatype exn = ValueError string | AttributeError | TypeError | External string

text \<open>
  A response: \<open>jsonify(body), code\<close>, a rendered page, or an exception that leaves the
  handler, which Flask answers with its own 500 page.
\<close>

datatype 'n response = JsonResp nat "'n json" | HtmlResp nat string | Unhandled exn

fun status_code :: "'n response \<Rightarrow> nat" where
  "status_code (JsonResp c _) = c"
| "status_code (HtmlResp c _) = c"
| "status_code (Unhandled e) = 500"

text \<open>A nullable text column read back into JSON.\<close>

fun jtext :: "string option \<Rightarrow> 'n json" where
  "jtext None = JNull"
| "jtext (Some s) = JStr s"

section \<open>Tables\<close>

text \<open>
  The two tables the SQL statements of \<open>app.py\<close> name, with the columns those statements
  use. \<open>None\<close> is SQL \<open>NULL\<close>. Keys are kept in their text form (what \<open>str(row[0])\<close> gives).
\<close>

record 'v item =
  item_id :: string
  owner_id :: "string option"
  provider_name :: "string option"
  provider_phone :: "string option"
  title :: "string option"
  bio :: "string option"
  category :: "string option"
  image_url :: "string option"
  status :: "string option"
  item_vector :: "'v option"
  created_at :: nat

record swipe =
  sw_swiper_id :: string
  sw_item_id :: string
  sw_direction :: "string option"
  sw_is_match :: bool

record 'v database =
  items :: "'v item list"
  swipes :: "swipe list"

section \<open>Collaborators\<close>

text \<open>The database operations a handler issues; each may raise.\<close>

datatype db_op =
    Connect | SelectFeed | InsertItem | SearchItems
  | InsertSwipe | SelectProvider | UpdateStatus | SelectMatches | Commit

text \<open>Calls that leave the process.\<close>

datatype call = GcsUpload string | GenerateContent | DbConnect

text \<open>
  Everything \<open>app.py\<close> delegates: the UUID source, the object store, the generation model
  (\<open>response.text\<close>, which may be \<open>None\<close>), the JSON parser, the template engine, and the
  database with its driver: how a bound Python value is cast to a key or to text, which
  key a new row gets, the SQL functions \<open>embedding\<close>, \<open><=>\<close> and \<open>ai.if\<close>, and whether an
  operation raises (a lost connection, a violated constraint, a failing SQL function).
  The schema of the two tables is not part of \<open>app.py\<close>; what it would decide is decided
  by \<open>cast_item_id\<close>, \<open>cast_other\<close>, \<open>gen_item_id\<close> and \<open>db_raises\<close>.
\<close>

record ('n, 'v) backend =
  uuid4_of :: "nat \<Rightarrow> string"
  exn_str :: "exn \<Rightarrow> string"
  format_exc :: "exn \<Rightarrow> string"
  genai_new :: "string option \<Rightarrow> exn option"
  storage_new :: "exn option"
  create_engine :: "string \<Rightarrow> exn option"
  py_int :: "string \<Rightarrow> exn + int"
  gcs_bucket :: "string option \<Rightarrow> exn option"
  gcs_put :: "string option \<Rightarrow> string \<Rightarrow> nat list \<Rightarrow> exn + string"
  generate_content :: "string \<Rightarrow> nat list \<Rightarrow> string \<Rightarrow> exn + string option"
  json_loads :: "string \<Rightarrow> exn + 'n json"
  render_template :: "string \<Rightarrow> 'n json \<Rightarrow> string"
  db_raises :: "db_op \<Rightarrow> exn option"
  cast_item_id :: "'n json \<Rightarrow> exn + string"
  cast_other :: "'n json \<Rightarrow> exn + string option"
  gen_item_id :: "'v item list \<Rightarrow> string"
  embedding :: "string \<Rightarrow> string option \<Rightarrow> 'v option"
  cosine_distance :: "'v \<Rightarrow> 'v \<Rightarrow> 'n"
  ai_if :: "string option \<Rightarrow> string \<Rightarrow> bool"
  round3 :: "'n \<Rightarrow> 'n"

text \<open>
  A Python value bound to a text parameter: a \<open>str\<close> is sent as it is, \<open>None\<close> as
  \<open>NULL\<close>; what happens to any other value is the driver's business.
\<close>

definition bind_text :: "('n, 'v) backend \<Rightarrow> 'n json \<Rightarrow> exn + string option" where
  "bind_text b j = (case j of JStr s \<Rightarrow> Inr (Some s) | JNull \<Rightarrow> Inr None | _ \<Rightarrow> cast_other b j)"

text \<open>SQL \<open>||\<close>: \<open>NULL\<close> if either side is.\<close>

fun sql_concat :: "string option \<Rightarrow> string option \<Rightarrow> string option" where
  "sql_concat (Some a) (Some c) = Some (a @ c)"
| "sql_concat _ _ = None"

section \<open>Process state\<close>

text \<open>The module-level client handles; \<open>None\<close> is Python's \<open>None\<close>.\<close>

record app =
  genai_client :: "string option option"
  storage_client :: "unit option"
  engine :: "string option"
  bucket_name :: "string option"

text \<open>
  What lies outside the process: the committed database, the object store, how many
  UUIDs have been drawn, the database clock, and the calls made so far.
\<close>

record 'v world =
  db :: "'v database"
  blobs :: "(string \<times> nat list) list"
  uuid_ctr :: nat
  clock :: nat
  calls :: "call list"

definition uuid4 :: "('n, 'v) backend \<Rightarrow> 'v world \<Rightarrow> string \<times> 'v world" where
  "uuid4 b w = (uuid4_of b (uuid_ctr w), w\<lparr>uuid_ctr := Suc (uuid_ctr w)\<rparr>)"

definition log_call :: "call \<Rightarrow> 'v world \<Rightarrow> 'v world" where
  "log_call c w = w\<lparr>calls := calls w @ [c]\<rparr>"

definition not_initialized :: "'n response" where
  "not_initialized =
     JsonResp 500 (JObj [(''error'', JStr ''Database engine not initialized.'')])"

section \<open>Swipe handling\<close>

text \<open>\<open>UPDATE items SET status = 'matched' WHERE item_id = :id\<close>\<close>

definition update_matched :: "string \<Rightarrow> 'v item list \<Rightarrow> 'v item list" where
  "update_matched i rows =
     map (\<lambda>r. if item_id r = i then r\<lparr>status := Some ''matched''\<rparr> else r) rows"

text \<open>
  \<open>handle_swipe\<close> reads \<open>request.json\<close>, here the parsed body \<open>data\<close>, and calls \<open>data.get\<close>
  before its \<open>try\<close> block: on a body that is not a JSON object (\<open>null\<close>, an array, a number,
  a string) the \<open>AttributeError\<close> leaves the handler. On an object it draws the swiper's
  UUID and then validates.

  The body of the \<open>with engine.connect() as conn\<close> block of \<open>handle_swipe\<close>, run on the
  committed tables. It returns the response and the tables as committed, or the
  exception that left the block; then nothing was committed, since no statement follows
  a successful commit.
\<close>

definition swipe_txn ::
  "('n, 'v) backend \<Rightarrow> 'v database \<Rightarrow> string \<Rightarrow> 'n json \<Rightarrow> 'n json
     \<Rightarrow> exn + ('n response \<times> 'v database)" where
  "swipe_txn b d swiper_id direction req_item_id =
    (let is_match = (direction = JStr ''right'') in
     case db_raises b InsertSwipe of Some e \<Rightarrow> Inl e | None \<Rightarrow>
     case cast_item_id b req_item_id of Inl e \<Rightarrow> Inl e | Inr i \<Rightarrow>
     case bind_text b direction of Inl e \<Rightarrow> Inl e | Inr dir \<Rightarrow>
     let d1 = d\<lparr>swipes := swipes d @
                [\<lparr>sw_swiper_id = swiper_id, sw_item_id = i,
                  sw_direction = dir, sw_is_match = is_match\<rparr>]\<rparr>;
         no_match = JsonResp 200 (JObj [(''is_match'', JBool False),
                                        (''swiper_id'', JStr swiper_id)])
     in
     if is_match then
       (case db_raises b SelectProvider of Some e \<Rightarrow> Inl e | None \<Rightarrow>
        let res = find (\<lambda>r. item_id r = i) (items d1) in
        case db_raises b UpdateStatus of Some e \<Rightarrow> Inl e | None \<Rightarrow>
        let d2 = d1\<lparr>items := update_matched i (items d1)\<rparr> in
        case db_raises b Commit of Some e \<Rightarrow> Inl e | None \<Rightarrow>
        (case res of
           Some r \<Rightarrow>
             Inr (JsonResp 200 (JObj [(''is_match'', JBool True),
                                      (''provider_name'', jtext (provider_name r)),
                                      (''provider_phone'', jtext (provider_phone r)),
                                      (''swiper_id'', JStr swiper_id)]), d2)
         | None \<Rightarrow> Inr (no_match, d2)))
     else
       (case db_raises b Commit of Some e \<Rightarrow> Inl e | None \<Rightarrow> Inr (no_match, d1)))"

definition handle_swipe ::
  "('n::zero, 'v) backend \<Rightarrow> app \<Rightarrow> 'v world \<Rightarrow> 'n json \<Rightarrow> 'n response \<times> 'v world" where
  "handle_swipe b a w data =
    (case engine a of
       None \<Rightarrow> (not_initialized, w)
     | Some eng \<Rightarrow>
       (case data of
          JObj kvs \<Rightarrow>
        let direction = dict_get kvs ''direction'' JNull;
            req_item_id = dict_get kvs ''item_id'' JNull;
            (swiper_id, w1) = uuid4 b w
        in
        if \<not> truthy req_item_id \<or> direction \<notin> set [JStr ''left'', JStr ''right'']
        then (JsonResp 400 (JObj [(''error'', JStr ''Invalid swipe data'')]), w1)
        else
          let w2 = log_call DbConnect w1;
              failed = (\<lambda>e. (JsonResp 500 (JObj [(''error'', JStr ''Database error during swipe''),
                                                  (''details'', JStr (exn_str b e)),
                                                  (''traceback'', JStr (format_exc b e))]), w2))
          in
          case db_raises b Connect of Some e \<Rightarrow> failed e | None \<Rightarrow>
          (case swipe_txn b (db w2) swiper_id direction req_item_id of
             Inl e \<Rightarrow> failed e
           | Inr (resp, d') \<Rightarrow> (resp, w2\<lparr>db := d'\<rparr>))
        | _ \<Rightarrow> (Unhandled AttributeError, w)))"

section \<open>Start-up\<close>

text \<open>The environment variables read at import time and by the \<open>__main__\<close> block.\<close>

record env =
  GEMINI_API_KEY :: "string option"
  DATABASE_URL :: "string option"
  GCS_BUCKET_NAME :: "string option"
  PORT :: "string option"

text \<open>
  The module-level \<open>try\<close> block. The three handles start as \<open>None\<close>; each assignment that
  is reached before an exception stays. The second component is the exception whose
  traceback the \<open>except\<close> clause prints, if any.
\<close>

definition startup :: "('n, 'v) backend \<Rightarrow> env \<Rightarrow> app \<times> exn option" where
  "startup b ev =
    (let a0 = \<lparr>genai_client = None, storage_client = None, engine = None,
               bucket_name = GCS_BUCKET_NAME ev\<rparr> in
     case genai_new b (GEMINI_API_KEY ev) of Some e \<Rightarrow> (a0, Some e) | None \<Rightarrow>
     let a1 = a0\<lparr>genai_client := Some (GEMINI_API_KEY ev)\<rparr> in
     case storage_new b of Some e \<Rightarrow> (a1, Some e) | None \<Rightarrow>
     let a2 = a1\<lparr>storage_client := Some ()\<rparr> in
     (case DATABASE_URL ev of
        None \<Rightarrow> (a2, Some (ValueError ''DATABASE_URL is not set in environment variables.''))
      | Some url \<Rightarrow>
          if url = []
          then (a2, Some (ValueError ''DATABASE_URL is not set in environment variables.''))
          else (case create_engine b url of
                  Some e \<Rightarrow> (a2, Some e)
                | None \<Rightarrow> (a2\<lparr>engine := Some url\<rparr>, None))))"

text \<open>
  Running the module as a script: after the imports and the \<open>try\<close> block, \<open>app.run\<close> is
  called on the port \<open>int(os.environ.get('PORT', 8080))\<close>. The only exception that can
  leave the module is the one \<open>int\<close> raises on a malformed \<open>PORT\<close>.
\<close>

datatype process = Crashed exn | Serving app int

definition main :: "('n, 'v) backend \<Rightarrow> env \<Rightarrow> process" where
  "main b ev =
    (let (a, printed) = startup b ev in
     case PORT ev of
       None \<Rightarrow> Serving a 8080
     | Some p \<Rightarrow> (case py_int b p of Inl e \<Rightarrow> Crashed e | Inr n \<Rightarrow> Serving a n))"

section \<open>Feed\<close>

text \<open>\<open>request.args.get(k)\<close> and \<open>request.form.get(k, dflt)\<close>: the first value of the key.\<close>

definition form_get :: "(string \<times> string) list \<Rightarrow> string \<Rightarrow> string \<Rightarrow> string" where
  "form_get f k dflt = (case map_of f k of None \<Rightarrow> dflt | Some v \<Rightarrow> v)"

text \<open>
  \<open>SELECT ... FROM items WHERE status = 'available' ORDER BY created_at DESC LIMIT 20\<close>
\<close>

definition feed_sql :: "'v database \<Rightarrow> 'v item list" where
  "feed_sql d =
     take 20 (rev (sort_key created_at (filter (\<lambda>r. status r = Some ''available'') (items d))))"

definition feed_item :: "'v item \<Rightarrow> 'n json" where
  "feed_item r = JObj [(''id'', JStr (item_id r)), (''title'', jtext (title r)),
                       (''bio'', jtext (bio r)), (''category'', jtext (category r)),
                       (''image_url'', jtext (image_url r))]"

definition fetch_failed :: "('n, 'v) backend \<Rightarrow> exn \<Rightarrow> 'n response" where
  "fetch_failed b e =
     JsonResp 500 (JObj [(''error'', JStr ''Failed to fetch items''),
                         (''details'', JStr (exn_str b e)),
                         (''traceback'', JStr (format_exc b e))])"

definition home :: "('n, 'v) backend \<Rightarrow> app \<Rightarrow> 'v world \<Rightarrow> 'n response \<times> 'v world" where
  "home b a w =
    (case engine a of
       None \<Rightarrow> (not_initialized, w)
     | Some eng \<Rightarrow>
        let w1 = log_call DbConnect w in
        case db_raises b Connect of Some e \<Rightarrow> (fetch_failed b e, w1) | None \<Rightarrow>
        case db_raises b SelectFeed of Some e \<Rightarrow> (fetch_failed b e, w1) | None \<Rightarrow>
        let items' = map feed_item (feed_sql (db w1)) in
        case db_raises b Commit of Some e \<Rightarrow> (fetch_failed b e, w1) | None \<Rightarrow>
        (HtmlResp 200 (render_template b ''app.html'' (JArr items')), w1))"

definition get_items :: "('n, 'v) backend \<Rightarrow> app \<Rightarrow> 'v world \<Rightarrow> 'n response \<times> 'v world" where
  "get_items b a w =
    (case engine a of
       None \<Rightarrow> (not_initialized, w)
     | Some eng \<Rightarrow>
        let w1 = log_call DbConnect w in
        case db_raises b Connect of Some e \<Rightarrow> (fetch_failed b e, w1) | None \<Rightarrow>
        case db_raises b SelectFeed of Some e \<Rightarrow> (fetch_failed b e, w1) | None \<Rightarrow>
        let items' = map feed_item (feed_sql (db w1)) in
        case db_raises b Commit of Some e \<Rightarrow> (fetch_failed b e, w1) | None \<Rightarrow>
        (JsonResp 200 (JArr items'), w1))"

section \<open>Listing creation\<close>

definition upload_to_gcs ::
  "('n, 'v) backend \<Rightarrow> app \<Rightarrow> 'v world \<Rightarrow> nat list \<Rightarrow> string \<Rightarrow> (exn + string) \<times> 'v world" where
  "upload_to_gcs b a w file_bytes filename =
    (case storage_client a of
       None \<Rightarrow> (Inl AttributeError, w)
     | Some c \<Rightarrow>
        (case gcs_bucket b (bucket_name a) of
           Some e \<Rightarrow> (Inl e, w)
         | None \<Rightarrow>
            let (u, w1) = uuid4 b w;
                name = ''items/'' @ u @ ''-'' @ filename;
                w2 = log_call (GcsUpload name) w1
            in case gcs_put b (bucket_name a) name file_bytes of
                 Inl e \<Rightarrow> (Inl e, w2)
               | Inr url \<Rightarrow> (Inr url, w2\<lparr>blobs := (name, file_bytes) # blobs w2\<rparr>)))"

text \<open>The multipart request: the \<open>image\<close> file part (file name and bytes) and the form.\<close>

record list_request =
  image :: "(string \<times> nat list) option"
  form :: "(string \<times> string) list"

definition prompt :: string where
  "prompt = concat (map (\<lambda>l. l @ [CHR 0x0A])
    ['''',
     ''    You are a witty community manager for NeighborLoop. '',
     ''    Analyze this surplus item and return JSON:'',
     ''    {'',
     ''        '' @ [CHR 0x22] @ ''bio'' @ [CHR 0x22] @ '': '' @ [CHR 0x22] @
       ''First-person witty dating-style profile bio, for the product, not longer than 2 lines''
       @ [CHR 0x22] @ '','',
     ''        '' @ [CHR 0x22] @ ''category'' @ [CHR 0x22] @ '': '' @ [CHR 0x22] @
       ''One-word category'' @ [CHR 0x22] @ '','',
     ''        '' @ [CHR 0x22] @ ''tags'' @ [CHR 0x22] @ '': ['' @ [CHR 0x22] @ ''tag1''
       @ [CHR 0x22] @ '', '' @ [CHR 0x22] @ ''tag2'' @ [CHR 0x22] @ '']'',
     ''    }'']) @ ''    ''"

text \<open>
  The \<open>INSERT INTO items ... RETURNING item_id\<close> of \<open>list_item\<close> with its commit. The
  arguments of \<open>conn.execute\<close> are evaluated first, so \<open>profile.get\<close> on a non-dict
  raises before the statement is sent.
\<close>

definition list_item_txn ::
  "('n, 'v) backend \<Rightarrow> 'v database \<Rightarrow> nat \<Rightarrow> string \<Rightarrow> string \<Rightarrow> string \<Rightarrow> string
     \<Rightarrow> 'n json \<Rightarrow> string \<Rightarrow> exn + (string \<times> 'v database)" where
  "list_item_txn b d now generated_owner_id name phone item_title profile url =
    (case profile of
       JObj kvs \<Rightarrow>
        (case db_raises b InsertItem of Some e \<Rightarrow> Inl e | None \<Rightarrow>
         case bind_text b (dict_get kvs ''bio'' (JStr ''No bio provided.'')) of
           Inl e \<Rightarrow> Inl e | Inr bio' \<Rightarrow>
         case bind_text b (dict_get kvs ''category'' (JStr ''Misc'')) of
           Inl e \<Rightarrow> Inl e | Inr cat \<Rightarrow>
         let row = \<lparr>item_id = gen_item_id b (items d),
                    owner_id = Some generated_owner_id,
                    provider_name = Some name,
                    provider_phone = Some phone,
                    title = Some item_title,
                    bio = bio',
                    category = cat,
                    image_url = Some url,
                    status = Some ''available'',
                    item_vector = embedding b ''text-embedding-005''
                                    (sql_concat (sql_concat (Some item_title) (Some '' '')) bio'),
                    created_at = now\<rparr>;
             d1 = d\<lparr>items := items d @ [row]\<rparr>
         in case db_raises b Commit of Some e \<Rightarrow> Inl e | None \<Rightarrow> Inr (item_id row, d1))
     | _ \<Rightarrow> Inl AttributeError)"

definition operation_failed :: "('n, 'v) backend \<Rightarrow> exn \<Rightarrow> 'n response" where
  "operation_failed b e =
     JsonResp 500 (JObj [(''error'', JStr ''Operation Failed''),
                         (''details'', JStr (exn_str b e)),
                         (''traceback'', JStr (format_exc b e))])"

definition list_item ::
  "('n, 'v) backend \<Rightarrow> app \<Rightarrow> 'v world \<Rightarrow> list_request \<Rightarrow> 'n response \<times> 'v world" where
  "list_item b a w req =
    (case engine a of
       None \<Rightarrow> (not_initialized, w)
     | Some eng \<Rightarrow>
       (case image req of
          None \<Rightarrow> (JsonResp 400 (JObj [(''error'', JStr ''No image provided'')]), w)
        | Some (filename, image_bytes) \<Rightarrow>
           let provider_name' = form_get (form req) ''provider_name'' ''Anonymous'';
               provider_phone' = form_get (form req) ''provider_phone'' ''No Phone'';
               item_title = form_get (form req) ''item_title'' ''No Title''
           in
           (case upload_to_gcs b a w image_bytes filename of
              (Inl e, w1) \<Rightarrow>
                (JsonResp 500 (JObj [(''error'', JStr ''GCS Upload Failed''),
                                     (''details'', JStr (exn_str b e))]), w1)
            | (Inr image_url', w1) \<Rightarrow>
               (case genai_client a of
                  None \<Rightarrow> (operation_failed b AttributeError, w1)
                | Some c \<Rightarrow>
                   let w2 = log_call GenerateContent w1 in
                   case generate_content b ''gemini-3-flash-preview'' image_bytes prompt of
                     Inl e \<Rightarrow> (operation_failed b e, w2)
                   | Inr None \<Rightarrow> (operation_failed b TypeError, w2)
                   | Inr (Some reply) \<Rightarrow>
                   case json_loads b reply of
                     Inl e \<Rightarrow> (operation_failed b e, w2) | Inr profile \<Rightarrow>
                   let (generated_owner_id, w3) = uuid4 b w2;
                       w4 = log_call DbConnect w3
                   in
                   case db_raises b Connect of
                     Some e \<Rightarrow> (operation_failed b e, w4) | None \<Rightarrow>
                   (case list_item_txn b (db w4) (clock w4) generated_owner_id provider_name'
                           provider_phone' item_title profile image_url' of
                      Inl e \<Rightarrow> (operation_failed b e, w4)
                    | Inr (new_id, d') \<Rightarrow>
                        (JsonResp 200 (JObj [(''status'', JStr ''success''),
                                             (''item_id'', JStr new_id),
                                             (''image_url'', JStr image_url'),
                                             (''profile'', profile)]),
                         w4\<lparr>db := d'\<rparr>))))))"

section \<open>Semantic search\<close>

text \<open>
  The prompt handed to \<open>ai.if\<close> for one row:
  \<open>'Does this text: "' || bio || '" match the user request: "' || :query || '", at least 60%? " '\<close>
\<close>

definition match_prompt :: "string option \<Rightarrow> string \<Rightarrow> string option" where
  "match_prompt bio' q =
     sql_concat (sql_concat (sql_concat (sql_concat
       (Some (''Does this text: '' @ [CHR 0x22])) bio')
       (Some ([CHR 0x22] @ '' match the user request: '' @ [CHR 0x22])))
       (Some q))
       (Some ([CHR 0x22] @ '', at least 60%? '' @ [CHR 0x22] @ '' ''))"

text \<open>The rows the \<open>WHERE\<close> clause keeps, each with its (non-null) vector.\<close>

definition search_candidates ::
  "('n, 'v) backend \<Rightarrow> 'v database \<Rightarrow> string \<Rightarrow> ('v item \<times> 'v) list" where
  "search_candidates b d q =
     List.map_filter
       (\<lambda>r. case item_vector r of
               None \<Rightarrow> None
             | Some iv \<Rightarrow>
                 if status r = Some ''available''
                    \<and> ai_if b (match_prompt (bio r) q) ''gemini-3-flash-preview''
                 then Some (r, iv) else None)
       (items d)"

text \<open>
  \<open>search_sql\<close>: each selected row with its \<open>score\<close> column. The query embedding is
  computed by the database; were it \<open>NULL\<close>, every distance and score would be \<open>NULL\<close>
  and the order unspecified. Rows at equal distance come in table order.
\<close>

definition search_sql ::
  "('n::{one,minus,linorder}, 'v) backend \<Rightarrow> 'v database \<Rightarrow> string
     \<Rightarrow> ('v item \<times> 'n option) list" where
  "search_sql b d q =
    (case embedding b ''text-embedding-005'' (Some q) of
       None \<Rightarrow> map (\<lambda>(r, iv). (r, None)) (take 5 (search_candidates b d q))
     | Some qv \<Rightarrow>
         map (\<lambda>(r, iv). (r, Some (1 - cosine_distance b iv qv)))
             (take 5 (sort_key (\<lambda>(r, iv). cosine_distance b iv qv) (search_candidates b d q))))"

definition hit :: "('n, 'v) backend \<Rightarrow> 'v item \<Rightarrow> 'n \<Rightarrow> 'n json" where
  "hit b r score =
     JObj [(''id'', JStr (item_id r)), (''title'', jtext (title r)),
           (''bio'', jtext (bio r)), (''category'', jtext (category r)),
           (''image_url'', jtext (image_url r)), (''score'', JNum (round3 b score))]"

text \<open>The loop building \<open>hits\<close>; \<open>float(None)\<close> raises.\<close>

fun hits :: "('n, 'v) backend \<Rightarrow> ('v item \<times> 'n option) list \<Rightarrow> exn + 'n json list" where
  "hits b [] = Inr []"
| "hits b ((r, None) # rows) = Inl TypeError"
| "hits b ((r, Some s) # rows) =
     (case hits b rows of Inl e \<Rightarrow> Inl e | Inr hs \<Rightarrow> Inr (hit b r s # hs))"

definition search ::
  "('n::{one,minus,linorder}, 'v) backend \<Rightarrow> app \<Rightarrow> 'v world \<Rightarrow> (string \<times> string) list
     \<Rightarrow> 'n response \<times> 'v world" where
  "search b a w args =
    (case engine a of
       None \<Rightarrow> (not_initialized, w)
     | Some eng \<Rightarrow>
        let query_text = map_of args ''query'' in
        if query_text = None \<or> query_text = Some []
        then (JsonResp 200 (JArr []), w)
        else
          (case query_text of
             None \<Rightarrow> (JsonResp 200 (JArr []), w)
           | Some q \<Rightarrow>
              let w1 = log_call DbConnect w;
                  failed = (\<lambda>e. (JsonResp 500 (JObj [(''error'', JStr (exn_str b e))]), w1))
              in
              case db_raises b Connect of Some e \<Rightarrow> failed e | None \<Rightarrow>
              case db_raises b SearchItems of Some e \<Rightarrow> failed e | None \<Rightarrow>
              (case hits b (search_sql b (db w1) q) of
                 Inl e \<Rightarrow> failed e
               | Inr hs \<Rightarrow> (JsonResp 200 (JArr hs), w1))))"

section \<open>Matches lookup\<close>

text \<open>
  \<open>SELECT s.item_id, i.title, i.image_url, i.provider_name, i.provider_phone
    FROM swipes s JOIN items i ON s.item_id = i.item_id
    WHERE s.swiper_id = :swiper AND s.is_match = true AND i.status = 'matched'\<close>
\<close>

definition matches_sql :: "'v database \<Rightarrow> string \<Rightarrow> (swipe \<times> 'v item) list" where
  "matches_sql d swiper =
     concat (map (\<lambda>s. map (\<lambda>i. (s, i))
                        (filter (\<lambda>i. sw_item_id s = item_id i \<and> sw_swiper_id s = swiper
                                      \<and> sw_is_match s \<and> status i = Some ''matched'') (items d)))
                 (swipes d))"

definition get_matches ::
  "('n, 'v) backend \<Rightarrow> app \<Rightarrow> 'v world \<Rightarrow> (string \<times> string) list \<Rightarrow> 'n response \<times> 'v world" where
  "get_matches b a w args =
    (case engine a of
       None \<Rightarrow> (not_initialized, w)
     | Some eng \<Rightarrow>
        let swiper_id = map_of args ''swiper_id'' in
        if swiper_id = None \<or> swiper_id = Some []
        then (JsonResp 400 (JObj [(''error'', JStr ''swiper_id is required'')]), w)
        else
          (case swiper_id of
             None \<Rightarrow> (JsonResp 400 (JObj [(''error'', JStr ''swiper_id is required'')]), w)
           | Some sid \<Rightarrow>
              let w1 = log_call DbConnect w;
                  failed = (\<lambda>e. (JsonResp 500 (JObj [(''error'', JStr (exn_str b e))]), w1))
              in
              case db_raises b Connect of Some e \<Rightarrow> failed e | None \<Rightarrow>
              case db_raises b SelectMatches of Some e \<Rightarrow> failed e | None \<Rightarrow>
              (JsonResp 200 (JArr (map (\<lambda>(s, i).
                   JObj [(''item_id'', JStr (sw_item_id s)),
                         (''item_title'', jtext (title i)),
                         (''item_image_url'', jtext (image_url i)),
                         (''provider_name'', jtext (provider_name i)),
                         (''provider_phone'', jtext (provider_phone i))])
                 (matches_sql (db w1) sid))), w1)))"

section \<open>Vocabulary of the properties\<close>

definition db_ok :: "('n, 'v) backend \<Rightarrow> db_op list \<Rightarrow> bool" where
  "db_ok b ops = list_all (\<lambda>op. db_raises b op = None) ops"

definition swiper_of :: "('n, 'v) backend \<Rightarrow> 'v world \<Rightarrow> string" where
  "swiper_of b w = uuid4_of b (uuid_ctr w)"

definition match_response :: "'v item \<Rightarrow> string \<Rightarrow> 'n response" where
  "match_response r sid =
     JsonResp 200 (JObj [(''is_match'', JBool True),
                         (''provider_name'', jtext (provider_name r)),
                         (''provider_phone'', jtext (provider_phone r)),
                         (''swiper_id'', JStr sid)])"

definition no_match_response :: "string \<Rightarrow> 'n response" where
  "no_match_response sid =
     JsonResp 200 (JObj [(''is_match'', JBool False), (''swiper_id'', JStr sid)])"

section \<open>A concrete deployment\<close>

definition demo_backend :: "(int, int) backend" where
  "demo_backend =
    \<lparr>uuid4_of = (\<lambda>n. ''uuid-'' @ replicate n (CHR ''x'')),
     exn_str = (\<lambda>e. ''error''),
     format_exc = (\<lambda>e. ''Traceback''),
     genai_new = (\<lambda>k. None),
     storage_new = None,
     create_engine = (\<lambda>u. None),
     py_int = (\<lambda>s. if s = ''9000'' then Inr 9000 else Inl (ValueError s)),
     gcs_bucket = (\<lambda>n. None),
     gcs_put = (\<lambda>bk name data. Inr (''https://storage.googleapis.com/'' @ name)),
     generate_content = (\<lambda>m img p. Inr (Some ''{}'')),
     json_loads = (\<lambda>t. Inr (JObj [(''bio'', JStr ''Shine on''), (''category'', JStr ''Home''),
                                    (''title'', JStr ''Mystery'')])),
     render_template = (\<lambda>t j. ''<html>''),
     db_raises = (\<lambda>op. None),
     cast_item_id = (\<lambda>j. case j of JStr s \<Rightarrow> Inr s | _ \<Rightarrow> Inl (External ''bad key'')),
     cast_other = (\<lambda>j. Inl (External ''bad text'')),
     gen_item_id = (\<lambda>rows. ''item-'' @ replicate (length rows) (CHR ''i'')),
     embedding = (\<lambda>m t. case t of None \<Rightarrow> None | Some s \<Rightarrow> Some (int (length s))),
     cosine_distance = (\<lambda>u v. \<bar>u - v\<bar>),
     ai_if = (\<lambda>p m. p \<noteq> None),
     round3 = (\<lambda>x. x)\<rparr>"

definition demo_app :: app where
  "demo_app = \<lparr>genai_client = Some (Some ''key''), storage_client = Some (),
               engine = Some ''postgresql://db'', bucket_name = Some ''bucket''\<rparr>"

definition lamp :: "int item" where
  "lamp = \<lparr>item_id = ''item-'', owner_id = Some ''owner'', provider_name = Some ''Ann'',
           provider_phone = Some ''555'', title = Some ''Lamp'', bio = Some ''Bright'',
           category = Some ''Home'', image_url = Some ''https://img/lamp'',
           status = Some ''available'', item_vector = Some 7, created_at = 1\<rparr>"

definition demo_world :: "int world" where
  "demo_world = \<lparr>db = \<lparr>items = [lamp], swipes = []\<rparr>, blobs = [], uuid_ctr = 0,
                 clock = 2, calls = []\<rparr>"

definition swipe_data :: "string \<Rightarrow> string \<Rightarrow> (string \<times> int json) list" where
  "swipe_data dir i = [(''direction'', JStr dir), (''item_id'', JStr i)]"

definition lamp_request :: list_request where
  "lamp_request = \<lparr>image = Some (''desk.jpg'', [255, 216]),
                    form = [(''provider_name'', ''Bea''), (''provider_phone'', ''777''),
                            (''item_title'', ''Desk'')]\<rparr>"

definition stool :: "int item" where
  "stool = \<lparr>item_id = ''item-s'', owner_id = Some ''owner2'', provider_name = Some ''Cy'',
            provider_phone = Some ''888'', title = Some ''Stool'', bio = Some ''Sturdy'',
            category = Some ''Home'', image_url = Some ''https://img/stool'',
            status = Some ''available'', item_vector = Some 5, created_at = 3\<rparr>"

definition shop_world :: "int world" where
  "shop_world = \<lparr>db = \<lparr>items = [lamp, stool, lamp\<lparr>item_id := ''item-m'', status := Some ''matched''\<rparr>],
                        swipes = []\<rparr>,
                 blobs = [], uuid_ctr = 0, clock = 4, calls = []\<rparr>"

definition bare_env :: env where
  "bare_env = \<lparr>GEMINI_API_KEY = Some ''key'', DATABASE_URL = None,
                GCS_BUCKET_NAME = Some ''bucket'', PORT = None\<rparr>"

definition engineless_app :: app where
  "engineless_app = \<lparr>genai_client = Some (Some ''key''), storage_client = Some (),
                      engine = None, bucket_name = Some ''bucket''\<rparr>"

section \<open>Swipe handling: derived facts\<close>

lemma find_update_matched:
  "find (\<lambda>r. item_id r = i) (update_matched i rows) =
   map_option (\<lambda>r. r\<lparr>status := Some ''matched''\<rparr>) (find (\<lambda>r. item_id r = i) rows)"
  by (induction rows) (simp_all add: update_matched_def)

lemma update_matched_ids:
  "map item_id (update_matched i rows) = map item_id rows"
  by (induction rows) (simp_all add: update_matched_def)

lemma update_matched_status:
  assumes "r \<in> set (update_matched i rows)" "item_id r = i"
  shows "status r = Some ''matched''"
proof -
  from assms(1) obtain r0 where r0: "r0 \<in> set rows"
    and r: "r = (if item_id r0 = i then r0\<lparr>status := Some ''matched''\<rparr> else r0)"
    unfolding update_matched_def by auto
  show ?thesis
  proof (cases "item_id r0 = i")
    case True then show ?thesis using r by simp
  next
    case False then show ?thesis using r assms(2) by simp
  qed
qed

lemma update_matched_has_row:
  assumes "r0 \<in> set rows" "item_id r0 = i"
  shows "\<exists>r \<in> set (update_matched i rows). item_id r = i"
proof -
  have "i \<in> set (map item_id rows)" using assms by force
  then have "i \<in> set (map item_id (update_matched i rows))"
    by (simp only: update_matched_ids)
  then show ?thesis by auto
qed

lemma find_first_row:
  assumes "r0 \<in> set rows" "item_id r0 = i"
  obtains r where "find (\<lambda>r. item_id r = i) rows = Some r" "r \<in> set rows" "item_id r = i"
proof -
  from assms have "find (\<lambda>r. item_id r = i) rows \<noteq> None"
    by (auto simp: find_None_iff)
  then obtain r where f: "find (\<lambda>r. item_id r = i) rows = Some r" by blast
  then have "r \<in> set rows" "item_id r = i"
    by (auto simp: find_Some_iff)
  with f show ?thesis by (rule that)
qed

lemma swipe_txn_right:
  assumes "db_ok b [InsertSwipe, SelectProvider, UpdateStatus, Commit]"
    and "cast_item_id b j = Inr i"
  shows "swipe_txn b d sid (JStr ''right'') j =
     Inr (case find (\<lambda>r. item_id r = i) (items d) of
            Some r \<Rightarrow> match_response r sid
          | None \<Rightarrow> no_match_response sid,
          \<lparr>items = update_matched i (items d),
           swipes = swipes d @ [\<lparr>sw_swiper_id = sid, sw_item_id = i,
                                 sw_direction = Some ''right'', sw_is_match = True\<rparr>]\<rparr>)"
  using assms
  by (simp add: swipe_txn_def db_ok_def bind_text_def Let_def match_response_def
        no_match_response_def split: option.splits)

lemma swipe_txn_left:
  assumes "db_ok b [InsertSwipe, Commit]"
    and "cast_item_id b j = Inr i"
  shows "swipe_txn b d sid (JStr ''left'') j =
     Inr (no_match_response sid,
          \<lparr>items = items d,
           swipes = swipes d @ [\<lparr>sw_swiper_id = sid, sw_item_id = i,
                                 sw_direction = Some ''left'', sw_is_match = False\<rparr>]\<rparr>)"
  using assms
  by (simp add: swipe_txn_def db_ok_def bind_text_def Let_def no_match_response_def
        split: option.splits)

lemma handle_swipe_valid:
  assumes "engine a = Some eng" "db_raises b Connect = None"
    and "truthy (dict_get data ''item_id'' JNull)"
    and "dict_get data ''direction'' JNull = JStr dir" "dir = ''left'' \<or> dir = ''right''"
    and "swipe_txn b (db w) (swiper_of b w) (JStr dir) (dict_get data ''item_id'' JNull) = Inr (resp, d')"
  shows "handle_swipe b a w (JObj data) =
           (resp, w\<lparr>db := d', uuid_ctr := Suc (uuid_ctr w), calls := calls w @ [DbConnect]\<rparr>)"
  using assms
  by (auto simp: handle_swipe_def uuid4_def log_call_def swiper_of_def Let_def)

lemma handle_swipe_invalid:
  assumes "engine a = Some eng"
    and "\<not> truthy (dict_get data ''item_id'' JNull)
         \<or> dict_get data ''direction'' JNull \<notin> set [JStr ''left'', JStr ''right'']"
  shows "handle_swipe b a w (JObj data) =
           (JsonResp 400 (JObj [(''error'', JStr ''Invalid swipe data'')]),
            w\<lparr>uuid_ctr := Suc (uuid_ctr w)\<rparr>)"
  using assms
  by (auto simp: handle_swipe_def uuid4_def Let_def)

lemma handle_swipe_right:
  assumes "engine a = Some eng"
    and "db_ok b [Connect, InsertSwipe, SelectProvider, UpdateStatus, Commit]"
    and "dict_get data ''direction'' JNull = JStr ''right''"
    and "truthy (dict_get data ''item_id'' JNull)"
    and "cast_item_id b (dict_get data ''item_id'' JNull) = Inr i"
  shows "handle_swipe b a w (JObj data) =
     (case find (\<lambda>r. item_id r = i) (items (db w)) of
        Some r \<Rightarrow> match_response r (swiper_of b w)
      | None \<Rightarrow> no_match_response (swiper_of b w),
      w\<lparr>db := \<lparr>items = update_matched i (items (db w)),
                swipes = swipes (db w) @
                  [\<lparr>sw_swiper_id = swiper_of b w, sw_item_id = i,
                    sw_direction = Some ''right'', sw_is_match = True\<rparr>]\<rparr>,
        uuid_ctr := Suc (uuid_ctr w), calls := calls w @ [DbConnect]\<rparr>)"
proof -
  have ok: "db_ok b [InsertSwipe, SelectProvider, UpdateStatus, Commit]"
    and con: "db_raises b Connect = None"
    using assms(2) by (simp_all add: db_ok_def)
  show ?thesis
    by (rule handle_swipe_valid [OF assms(1) con assms(4) assms(3) _
          swipe_txn_right [OF ok assms(5)]]) simp
qed

lemma handle_swipe_left:
  assumes "engine a = Some eng"
    and "db_ok b [Connect, InsertSwipe, Commit]"
    and "dict_get data ''direction'' JNull = JStr ''left''"
    and "truthy (dict_get data ''item_id'' JNull)"
    and "cast_item_id b (dict_get data ''item_id'' JNull) = Inr i"
  shows "handle_swipe b a w (JObj data) =
     (no_match_response (swiper_of b w),
      w\<lparr>db := \<lparr>items = items (db w),
                swipes = swipes (db w) @
                  [\<lparr>sw_swiper_id = swiper_of b w, sw_item_id = i,
                    sw_direction = Some ''left'', sw_is_match = False\<rparr>]\<rparr>,
        uuid_ctr := Suc (uuid_ctr w), calls := calls w @ [DbConnect]\<rparr>)"
proof -
  have ok: "db_ok b [InsertSwipe, Commit]"
    and con: "db_raises b Connect = None"
    using assms(2) by (simp_all add: db_ok_def)
  show ?thesis
    by (rule handle_swipe_valid [OF assms(1) con assms(4) assms(3) _
          swipe_txn_left [OF ok assms(5)]]) simp
qed

lemma handle_swipe_left_items:
  "dict_get data ''direction'' JNull = JStr ''left'' \<Longrightarrow>
   items (db (snd (handle_swipe b a w (JObj data)))) = items (db w)"
  by (auto simp: handle_swipe_def swipe_txn_def uuid4_def log_call_def Let_def
           split: option.splits sum.splits prod.splits)

lemma demo_ok: "db_ok demo_backend ops"
  by (simp add: db_ok_def demo_backend_def list_all_iff)

lemma swipe_data_get:
  "dict_get (swipe_data dir i) ''direction'' JNull = JStr dir"
  "dict_get (swipe_data dir i) ''item_id'' JNull = JStr i"
  by (simp_all add: dict_get_def swipe_data_def)

lemma demo_cast: "cast_item_id demo_backend (JStr s) = Inr s"
  by (simp add: demo_backend_def)

section \<open>Swipe handling: the claims\<close>

text \<open>
  Claim C1. In a process whose engine was initialised and against a database that executes
  the statements of the handler, a swipe with \<open>direction = right\<close> and an \<open>item_id\<close> that
  the database accepts as a key \<open>i\<close> behaves as follows. If a row with key \<open>i\<close> exists, the
  response is 200 with \<open>is_match\<close> true, the \<open>provider_name\<close> and \<open>provider_phone\<close> stored in
  that row and the \<open>swiper_id\<close> drawn in this call, and afterwards every row with key \<open>i\<close>
  (there is one) has status \<open>matched\<close>. If no row has key \<open>i\<close>, the response is the
  non-match one: \<open>is_match\<close> false and the \<open>swiper_id\<close> only, with status 200.
\<close>

theorem right_swipe_reveals_provider:
  assumes "engine a = Some eng"
    and "db_ok b [Connect, InsertSwipe, SelectProvider, UpdateStatus, Commit]"
    and "dict_get data ''direction'' JNull = JStr ''right''"
    and "truthy (dict_get data ''item_id'' JNull)"
    and "cast_item_id b (dict_get data ''item_id'' JNull) = Inr i"
  shows "(\<forall>r0. r0 \<in> set (items (db w)) \<and> item_id r0 = i \<longrightarrow>
            (\<exists>r. find (\<lambda>r. item_id r = i) (items (db w)) = Some r \<and>
                 fst (handle_swipe b a w (JObj data)) =
                   JsonResp 200 (JObj [(''is_match'', JBool True),
                                       (''provider_name'', jtext (provider_name r)),
                                       (''provider_phone'', jtext (provider_phone r)),
                                       (''swiper_id'', JStr (uuid4_of b (uuid_ctr w)))])) \<and>
            (\<exists>r \<in> set (items (db (snd (handle_swipe b a w (JObj data))))). item_id r = i) \<and>
            (\<forall>r \<in> set (items (db (snd (handle_swipe b a w (JObj data))))).
                 item_id r = i \<longrightarrow> status r = Some ''matched''))
       \<and> ((\<forall>r \<in> set (items (db w)). item_id r \<noteq> i) \<longrightarrow>
            fst (handle_swipe b a w (JObj data)) =
              JsonResp 200 (JObj [(''is_match'', JBool False),
                                  (''swiper_id'', JStr (uuid4_of b (uuid_ctr w)))]))"
proof -
  note hs = handle_swipe_right [OF assms, of w]
  have its: "items (db (snd (handle_swipe b a w (JObj data)))) = update_matched i (items (db w))"
    by (simp add: hs)
  have A: "\<exists>r. find (\<lambda>r. item_id r = i) (items (db w)) = Some r \<and>
                 fst (handle_swipe b a w (JObj data)) =
                   JsonResp 200 (JObj [(''is_match'', JBool True),
                                       (''provider_name'', jtext (provider_name r)),
                                       (''provider_phone'', jtext (provider_phone r)),
                                       (''swiper_id'', JStr (uuid4_of b (uuid_ctr w)))])"
    if "r0 \<in> set (items (db w))" "item_id r0 = i" for r0
  proof -
    from that obtain r where f: "find (\<lambda>r. item_id r = i) (items (db w)) = Some r"
      by (rule find_first_row)
    then show ?thesis
      by (simp add: hs match_response_def swiper_of_def)
  qed
  have B: "\<exists>r \<in> set (items (db (snd (handle_swipe b a w (JObj data))))). item_id r = i"
    if "r0 \<in> set (items (db w))" "item_id r0 = i" for r0
    unfolding its using that by (rule update_matched_has_row)
  have C: "\<forall>r \<in> set (items (db (snd (handle_swipe b a w (JObj data))))).
                 item_id r = i \<longrightarrow> status r = Some ''matched''"
    unfolding its using update_matched_status by blast
  have D: "fst (handle_swipe b a w (JObj data)) =
              JsonResp 200 (JObj [(''is_match'', JBool False),
                                  (''swiper_id'', JStr (uuid4_of b (uuid_ctr w)))])"
    if "\<forall>r \<in> set (items (db w)). item_id r \<noteq> i"
  proof -
    from that have "find (\<lambda>r. item_id r = i) (items (db w)) = None"
      by (simp add: find_None_iff)
    then show ?thesis
      by (simp add: hs no_match_response_def swiper_of_def)
  qed
  from A B C D show ?thesis by blast
qed

theorem right_swipe_reveals_provider_witness:
  "fst (handle_swipe demo_backend demo_app demo_world (JObj (swipe_data ''right'' ''item-''))) =
     JsonResp 200 (JObj [(''is_match'', JBool True), (''provider_name'', JStr ''Ann''),
                         (''provider_phone'', JStr ''555''), (''swiper_id'', JStr ''uuid-'')])
   \<and> map status (items (db (snd (handle_swipe demo_backend demo_app demo_world
                                    (JObj (swipe_data ''right'' ''item-'')))))) = [Some ''matched'']
   \<and> fst (handle_swipe demo_backend demo_app demo_world (JObj (swipe_data ''right'' ''ghost''))) =
     JsonResp 200 (JObj [(''is_match'', JBool False), (''swiper_id'', JStr ''uuid-'')])"
proof -
  have e: "engine demo_app = Some ''postgresql://db''"
    by (simp add: demo_app_def)
  have u: "uuid4_of demo_backend (uuid_ctr demo_world) = ''uuid-''"
    by (simp add: demo_backend_def demo_world_def)
  have i: "items (db demo_world) = [lamp]"
    by (simp add: demo_world_def)
  have l: "item_id lamp = ''item-''" "provider_name lamp = Some ''Ann''"
    "provider_phone lamp = Some ''555''"
    by (simp_all add: lamp_def)
  have hit: "truthy (dict_get (swipe_data ''right'' ''item-'') ''item_id'' JNull)"
    and miss: "truthy (dict_get (swipe_data ''right'' ''ghost'') ''item_id'' JNull)"
    by (simp_all add: swipe_data_get)
  note t1 = right_swipe_reveals_provider [OF e demo_ok swipe_data_get(1) hit,
      of "''item-''" demo_world, unfolded swipe_data_get, OF demo_cast]
  note t2 = right_swipe_reveals_provider [OF e demo_ok swipe_data_get(1) miss,
      of "''ghost''" demo_world, unfolded swipe_data_get, OF demo_cast]
  have c: "cast_item_id demo_backend (dict_get (swipe_data ''right'' ''item-'') ''item_id'' JNull)
            = Inr ''item-''"
    by (simp add: swipe_data_get demo_cast)
  have ev: "items (db (snd (handle_swipe demo_backend demo_app demo_world
              (JObj (swipe_data ''right'' ''item-''))))) = [lamp\<lparr>status := Some ''matched''\<rparr>]"
    by (simp add: handle_swipe_right [OF e demo_ok swipe_data_get(1) hit c] i l
          update_matched_def)
  from t1 show ?thesis
    using t2 by (simp add: u i l ev)
qed

text \<open>
  Claim C4, as amended. For every swipe whose body is a JSON object: if \<open>item_id\<close> is
  missing or falsy (absent, null, empty, zero or false, the handler's test being
  \<open>not item_id\<close>) or \<open>direction\<close> is neither \<open>left\<close> nor \<open>right\<close>, both tables stay as they were,
  and the answer is 400 when the engine was initialised and 500 with
  \<open>Database engine not initialized.\<close> when it was not. If \<open>item_id\<close> is truthy and the
  direction is one of the two, the engine was initialised and the database executes the
  statements and accepts the key, exactly one row is appended to \<open>swipes\<close>, whose \<open>is_match\<close>
  is true exactly when the direction is \<open>right\<close>.
\<close>

theorem swipe_validation:
  "(\<not> truthy (dict_get data ''item_id'' JNull)
      \<or> dict_get data ''direction'' JNull \<notin> {JStr ''left'', JStr ''right''} \<longrightarrow>
      db (snd (handle_swipe b a w (JObj data))) = db w
    \<and> (engine a \<noteq> None \<longrightarrow>
         fst (handle_swipe b a w (JObj data)) =
           JsonResp 400 (JObj [(''error'', JStr ''Invalid swipe data'')]))
    \<and> (engine a = None \<longrightarrow>
         fst (handle_swipe b a w (JObj data)) =
           JsonResp 500 (JObj [(''error'', JStr ''Database engine not initialized.'')])))
   \<and> (engine a \<noteq> None
        \<and> truthy (dict_get data ''item_id'' JNull)
        \<and> dict_get data ''direction'' JNull \<in> {JStr ''left'', JStr ''right''}
        \<and> db_ok b [Connect, InsertSwipe, SelectProvider, UpdateStatus, Commit]
        \<and> cast_item_id b (dict_get data ''item_id'' JNull) = Inr i \<longrightarrow>
      (\<exists>row. swipes (db (snd (handle_swipe b a w (JObj data)))) = swipes (db w) @ [row]
             \<and> sw_item_id row = i
             \<and> sw_swiper_id row = uuid4_of b (uuid_ctr w)
             \<and> sw_is_match row = (dict_get data ''direction'' JNull = JStr ''right'')))"
proof (intro conjI impI)
  assume bad: "\<not> truthy (dict_get data ''item_id'' JNull)
            \<or> dict_get data ''direction'' JNull \<notin> {JStr ''left'', JStr ''right''}"
  then have bad': "\<not> truthy (dict_get data ''item_id'' JNull)
         \<or> dict_get data ''direction'' JNull \<notin> set [JStr ''left'', JStr ''right'']"
    by simp
  show "db (snd (handle_swipe b a w (JObj data))) = db w"
  proof (cases "engine a")
    case None
    then show ?thesis by (simp add: handle_swipe_def)
  next
    case (Some eng)
    show ?thesis by (simp add: handle_swipe_invalid [OF Some bad'])
  qed
  {
    assume "engine a \<noteq> None"
    then obtain eng where e: "engine a = Some eng" by blast
    show "fst (handle_swipe b a w (JObj data)) =
            JsonResp 400 (JObj [(''error'', JStr ''Invalid swipe data'')])"
      by (simp add: handle_swipe_invalid [OF e bad'])
  }
  {
    assume "engine a = None"
    then show "fst (handle_swipe b a w (JObj data)) =
            JsonResp 500 (JObj [(''error'', JStr ''Database engine not initialized.'')])"
      by (simp add: handle_swipe_def not_initialized_def)
  }
next
  assume good: "engine a \<noteq> None
        \<and> truthy (dict_get data ''item_id'' JNull)
        \<and> dict_get data ''direction'' JNull \<in> {JStr ''left'', JStr ''right''}
        \<and> db_ok b [Connect, InsertSwipe, SelectProvider, UpdateStatus, Commit]
        \<and> cast_item_id b (dict_get data ''item_id'' JNull) = Inr i"
  then obtain eng where e: "engine a = Some eng" by blast
  from good have tr: "truthy (dict_get data ''item_id'' JNull)"
    and ok: "db_ok b [Connect, InsertSwipe, SelectProvider, UpdateStatus, Commit]"
    and cast: "cast_item_id b (dict_get data ''item_id'' JNull) = Inr i"
    and dir: "dict_get data ''direction'' JNull = JStr ''left''
              \<or> dict_get data ''direction'' JNull = JStr ''right''"
    by simp_all
  from ok have ok3: "db_ok b [Connect, InsertSwipe, Commit]"
    by (simp add: db_ok_def)
  from dir show "\<exists>row. swipes (db (snd (handle_swipe b a w (JObj data)))) = swipes (db w) @ [row]
                 \<and> sw_item_id row = i
                 \<and> sw_swiper_id row = uuid4_of b (uuid_ctr w)
                 \<and> sw_is_match row = (dict_get data ''direction'' JNull = JStr ''right'')"
  proof
    assume l: "dict_get data ''direction'' JNull = JStr ''left''"
    show ?thesis
      by (simp add: handle_swipe_left [OF e ok3 l tr cast] l swiper_of_def)
  next
    assume r: "dict_get data ''direction'' JNull = JStr ''right''"
    show ?thesis
      by (simp add: handle_swipe_right [OF e ok r tr cast] r swiper_of_def)
  qed
qed

theorem swipe_validation_witness:
  "fst (handle_swipe demo_backend demo_app demo_world (JObj (swipe_data ''up'' ''item-''))) =
     JsonResp 400 (JObj [(''error'', JStr ''Invalid swipe data'')])
   \<and> db (snd (handle_swipe demo_backend demo_app demo_world (JObj (swipe_data ''up'' ''item-''))))
       = db demo_world
   \<and> fst (handle_swipe demo_backend engineless_app demo_world
            (JObj (swipe_data ''up'' ''item-''))) =
     JsonResp 500 (JObj [(''error'', JStr ''Database engine not initialized.'')])
   \<and> db (snd (handle_swipe demo_backend engineless_app demo_world
                (JObj (swipe_data ''up'' ''item-''))))
       = db demo_world
   \<and> (\<exists>row. swipes (db (snd (handle_swipe demo_backend demo_app demo_world
                                 (JObj (swipe_data ''right'' ''item-'')))))
               = swipes (db demo_world) @ [row]
             \<and> sw_item_id row = ''item-'' \<and> sw_swiper_id row = ''uuid-'' \<and> sw_is_match row)
   \<and> (\<exists>row. swipes (db (snd (handle_swipe demo_backend demo_app demo_world
                                 (JObj (swipe_data ''left'' ''item-'')))))
               = swipes (db demo_world) @ [row]
             \<and> sw_item_id row = ''item-'' \<and> sw_swiper_id row = ''uuid-'' \<and> \<not> sw_is_match row)"
proof -
  have e: "engine demo_app = Some ''postgresql://db''" "engine engineless_app = None"
    by (simp_all add: demo_app_def engineless_app_def)
  have u: "uuid4_of demo_backend (uuid_ctr demo_world) = ''uuid-''"
    by (simp add: demo_backend_def demo_world_def)
  show ?thesis
    using swipe_validation [of "swipe_data ''up'' ''item-''" demo_backend demo_app demo_world
        "''item-''"]
      swipe_validation [of "swipe_data ''up'' ''item-''" demo_backend engineless_app demo_world
        "''item-''"]
      swipe_validation [of "swipe_data ''right'' ''item-''" demo_backend demo_app demo_world
        "''item-''"]
      swipe_validation [of "swipe_data ''left'' ''item-''" demo_backend demo_app demo_world
        "''item-''"]
    by (simp add: swipe_data_get demo_ok demo_cast u e)
qed

text \<open>
  The claim as the specification states it fails in three ways. In a process that came up
  without an engine, a swipe with a direction outside the two is answered with 500, not
  400. A swipe whose \<open>item_id\<close> is present but zero, with direction \<open>right\<close>, is answered with
  400 and inserts no row. A body that is not an object (\<open>null\<close>, so \<open>item_id\<close> is missing)
  is not answered with 400 either: the \<open>AttributeError\<close> of \<open>data.get\<close> leaves the handler.
\<close>

theorem swipe_validation_counterexample:
  "fst (handle_swipe demo_backend engineless_app demo_world (JObj (swipe_data ''up'' ''item-'')))
     = JsonResp 500 (JObj [(''error'', JStr ''Database engine not initialized.'')])
   \<and> fst (handle_swipe demo_backend demo_app demo_world
            (JObj [(''direction'', JStr ''right''), (''item_id'', JNum 0)]))
     = JsonResp 400 (JObj [(''error'', JStr ''Invalid swipe data'')])
   \<and> swipes (db (snd (handle_swipe demo_backend demo_app demo_world
                    (JObj [(''direction'', JStr ''right''), (''item_id'', JNum 0)])))) = []
   \<and> fst (handle_swipe demo_backend demo_app demo_world JNull) = Unhandled AttributeError
   \<and> status_code (fst (handle_swipe demo_backend demo_app demo_world JNull)) = 500"
  by (simp add: handle_swipe_def not_initialized_def engineless_app_def demo_app_def
        demo_world_def dict_get_def uuid4_def Let_def)

text \<open>
  Claim C8. A swipe with \<open>direction = left\<close> leaves the \<open>items\<close> table exactly as it was,
  whatever else happens; with the engine initialised, a present \<open>item_id\<close> that the database
  accepts and a database that executes the statements, the response is 200 with
  \<open>is_match\<close> false and the \<open>swiper_id\<close> drawn in this call.
\<close>

theorem left_swipe_changes_no_item:
  assumes "dict_get data ''direction'' JNull = JStr ''left''"
  shows "items (db (snd (handle_swipe b a w (JObj data)))) = items (db w)
       \<and> (engine a = Some eng
            \<and> db_ok b [Connect, InsertSwipe, Commit]
            \<and> truthy (dict_get data ''item_id'' JNull)
            \<and> cast_item_id b (dict_get data ''item_id'' JNull) = Inr i \<longrightarrow>
          fst (handle_swipe b a w (JObj data)) =
            JsonResp 200 (JObj [(''is_match'', JBool False),
                                (''swiper_id'', JStr (uuid4_of b (uuid_ctr w)))]))"
proof (intro conjI impI)
  show "items (db (snd (handle_swipe b a w (JObj data)))) = items (db w)"
    using assms by (rule handle_swipe_left_items)
next
  assume h: "engine a = Some eng
            \<and> db_ok b [Connect, InsertSwipe, Commit]
            \<and> truthy (dict_get data ''item_id'' JNull)
            \<and> cast_item_id b (dict_get data ''item_id'' JNull) = Inr i"
  then have "handle_swipe b a w (JObj data) =
     (no_match_response (swiper_of b w),
      w\<lparr>db := \<lparr>items = items (db w),
                swipes = swipes (db w) @
                  [\<lparr>sw_swiper_id = swiper_of b w, sw_item_id = i,
                    sw_direction = Some ''left'', sw_is_match = False\<rparr>]\<rparr>,
        uuid_ctr := Suc (uuid_ctr w), calls := calls w @ [DbConnect]\<rparr>)"
    using assms by (intro handle_swipe_left) simp_all
  then show "fst (handle_swipe b a w (JObj data)) =
            JsonResp 200 (JObj [(''is_match'', JBool False),
                                (''swiper_id'', JStr (uuid4_of b (uuid_ctr w)))])"
    by (simp add: no_match_response_def swiper_of_def)
qed

theorem left_swipe_changes_no_item_witness:
  "items (db (snd (handle_swipe demo_backend demo_app demo_world (JObj (swipe_data ''left'' ''item-'')))))
     = [lamp]
   \<and> fst (handle_swipe demo_backend demo_app demo_world (JObj (swipe_data ''left'' ''item-''))) =
       JsonResp 200 (JObj [(''is_match'', JBool False), (''swiper_id'', JStr ''uuid-'')])"
proof -
  have e: "engine demo_app = Some ''postgresql://db''"
    by (simp add: demo_app_def)
  have u: "uuid4_of demo_backend (uuid_ctr demo_world) = ''uuid-''"
    by (simp add: demo_backend_def demo_world_def)
  have i: "items (db demo_world) = [lamp]"
    by (simp add: demo_world_def)
  show ?thesis
    using left_swipe_changes_no_item [of "swipe_data ''left'' ''item-''" demo_backend demo_app
        demo_world "''postgresql://db''" "''item-''"]
    by (simp add: swipe_data_get demo_ok demo_cast u e i)
qed

text \<open>
  Claim C9. Two right-swipes in sequence on the same existing item (engine initialised,
  database executing the statements) both answer 200 with \<open>is_match\<close> true and the stored
  provider contact; the second is not rejected although the item is already matched.
  After both, the item is still there and every row with its key has status \<open>matched\<close>.
\<close>

theorem repeated_right_swipe:
  assumes "engine a = Some eng"
    and "db_ok b [Connect, InsertSwipe, SelectProvider, UpdateStatus, Commit]"
    and "dict_get data1 ''direction'' JNull = JStr ''right''"
    and "truthy (dict_get data1 ''item_id'' JNull)"
    and "cast_item_id b (dict_get data1 ''item_id'' JNull) = Inr i"
    and "dict_get data2 ''direction'' JNull = JStr ''right''"
    and "truthy (dict_get data2 ''item_id'' JNull)"
    and "cast_item_id b (dict_get data2 ''item_id'' JNull) = Inr i"
    and "r0 \<in> set (items (db w))" and "item_id r0 = i"
  shows "\<exists>r. find (\<lambda>r. item_id r = i) (items (db w)) = Some r
     \<and> fst (handle_swipe b a w (JObj data1)) =
         JsonResp 200 (JObj [(''is_match'', JBool True),
                             (''provider_name'', jtext (provider_name r)),
                             (''provider_phone'', jtext (provider_phone r)),
                             (''swiper_id'', JStr (uuid4_of b (uuid_ctr w)))])
     \<and> fst (handle_swipe b a (snd (handle_swipe b a w (JObj data1))) (JObj data2)) =
         JsonResp 200 (JObj [(''is_match'', JBool True),
                             (''provider_name'', jtext (provider_name r)),
                             (''provider_phone'', jtext (provider_phone r)),
                             (''swiper_id'', JStr (uuid4_of b (Suc (uuid_ctr w))))])
     \<and> (\<exists>r' \<in> set (items (db (snd (handle_swipe b a (snd (handle_swipe b a w (JObj data1))) (JObj data2))))).
           item_id r' = i)
     \<and> (\<forall>r' \<in> set (items (db (snd (handle_swipe b a (snd (handle_swipe b a w (JObj data1))) (JObj data2))))).
           item_id r' = i \<longrightarrow> status r' = Some ''matched'')"
proof -
  define w1 where "w1 = snd (handle_swipe b a w (JObj data1))"
  note h1 = handle_swipe_right [OF assms(1,2,3,4,5), of w]
  note h2 = handle_swipe_right [OF assms(1,2,6,7,8), of w1]
  from assms(9,10) obtain r where f: "find (\<lambda>r. item_id r = i) (items (db w)) = Some r"
    by (rule find_first_row)
  have i1: "items (db w1) = update_matched i (items (db w))"
    and c1: "uuid_ctr w1 = Suc (uuid_ctr w)"
    by (simp_all add: w1_def h1)
  have f1: "find (\<lambda>r. item_id r = i) (items (db w1)) = Some (r\<lparr>status := Some ''matched''\<rparr>)"
    by (simp add: i1 find_update_matched f)
  have i2: "items (db (snd (handle_swipe b a w1 (JObj data2)))) = update_matched i (items (db w1))"
    by (simp add: h2)
  have r1: "fst (handle_swipe b a w (JObj data1)) =
         JsonResp 200 (JObj [(''is_match'', JBool True),
                             (''provider_name'', jtext (provider_name r)),
                             (''provider_phone'', jtext (provider_phone r)),
                             (''swiper_id'', JStr (uuid4_of b (uuid_ctr w)))])"
    by (simp add: h1 f match_response_def swiper_of_def)
  have r2: "fst (handle_swipe b a w1 (JObj data2)) =
         JsonResp 200 (JObj [(''is_match'', JBool True),
                             (''provider_name'', jtext (provider_name r)),
                             (''provider_phone'', jtext (provider_phone r)),
                             (''swiper_id'', JStr (uuid4_of b (Suc (uuid_ctr w))))])"
    by (simp add: h2 f1 match_response_def swiper_of_def c1)
  have "\<exists>r' \<in> set (items (db w1)). item_id r' = i"
    unfolding i1 using assms(9,10) by (rule update_matched_has_row)
  then obtain r1' where "r1' \<in> set (items (db w1))" "item_id r1' = i" by blast
  then have ex: "\<exists>r' \<in> set (items (db (snd (handle_swipe b a w1 (JObj data2))))). item_id r' = i"
    unfolding i2 by (rule update_matched_has_row)
  have al: "\<forall>r' \<in> set (items (db (snd (handle_swipe b a w1 (JObj data2))))).
           item_id r' = i \<longrightarrow> status r' = Some ''matched''"
    unfolding i2 using update_matched_status by blast
  from f r1 r2 ex al show ?thesis
    unfolding w1_def by blast
qed

theorem repeated_right_swipe_witness:
  "fst (handle_swipe demo_backend demo_app demo_world (JObj (swipe_data ''right'' ''item-''))) =
     JsonResp 200 (JObj [(''is_match'', JBool True), (''provider_name'', JStr ''Ann''),
                         (''provider_phone'', JStr ''555''), (''swiper_id'', JStr ''uuid-'')])
   \<and> fst (handle_swipe demo_backend demo_app
           (snd (handle_swipe demo_backend demo_app demo_world (JObj (swipe_data ''right'' ''item-''))))
           (JObj (swipe_data ''right'' ''item-''))) =
     JsonResp 200 (JObj [(''is_match'', JBool True), (''provider_name'', JStr ''Ann''),
                         (''provider_phone'', JStr ''555''), (''swiper_id'', JStr ''uuid-x'')])
   \<and> map status (items (db (snd (handle_swipe demo_backend demo_app
           (snd (handle_swipe demo_backend demo_app demo_world (JObj (swipe_data ''right'' ''item-''))))
           (JObj (swipe_data ''right'' ''item-'')))))) = [Some ''matched'']"
proof -
  have e: "engine demo_app = Some ''postgresql://db''"
    by (simp add: demo_app_def)
  have u: "uuid4_of demo_backend (uuid_ctr demo_world) = ''uuid-''"
    "uuid4_of demo_backend (Suc (uuid_ctr demo_world)) = ''uuid-x''"
    by (simp_all add: demo_backend_def demo_world_def)
  have i: "items (db demo_world) = [lamp]"
    by (simp add: demo_world_def)
  have l: "item_id lamp = ''item-''" "provider_name lamp = Some ''Ann''"
    "provider_phone lamp = Some ''555''"
    by (simp_all add: lamp_def)
  have hit: "truthy (dict_get (swipe_data ''right'' ''item-'') ''item_id'' JNull)"
    by (simp add: swipe_data_get)
  have c: "cast_item_id demo_backend (dict_get (swipe_data ''right'' ''item-'') ''item_id'' JNull)
            = Inr ''item-''"
    by (simp add: swipe_data_get demo_cast)
  have m: "lamp \<in> set (items (db demo_world))"
    by (simp add: i)
  have ev: "items (db (snd (handle_swipe demo_backend demo_app
           (snd (handle_swipe demo_backend demo_app demo_world (JObj (swipe_data ''right'' ''item-''))))
           (JObj (swipe_data ''right'' ''item-''))))) = [lamp\<lparr>status := Some ''matched''\<rparr>]"
    by (simp add: handle_swipe_right [OF e demo_ok swipe_data_get(1) hit c] i l
          update_matched_def)
  from repeated_right_swipe [OF e demo_ok swipe_data_get(1) hit c swipe_data_get(1) hit c m l(1)]
  show ?thesis
    by (simp add: u i l ev)
qed

text \<open>
  Claim C10. A right-swipe with a non-empty \<open>item_id\<close> that matches no row of \<open>items\<close>
  (engine initialised, database executing the statements) still appends a row to
  \<open>swipes\<close> with \<open>is_match = true\<close>, while the response of that request says
  \<open>is_match: false\<close>.
\<close>

theorem unknown_item_swipe_recorded:
  assumes "engine a = Some eng"
    and "db_ok b [Connect, InsertSwipe, SelectProvider, UpdateStatus, Commit]"
    and "dict_get data ''direction'' JNull = JStr ''right''"
    and "truthy (dict_get data ''item_id'' JNull)"
    and "cast_item_id b (dict_get data ''item_id'' JNull) = Inr i"
    and "\<forall>r \<in> set (items (db w)). item_id r \<noteq> i"
  shows "swipes (db (snd (handle_swipe b a w (JObj data)))) =
           swipes (db w) @ [\<lparr>sw_swiper_id = uuid4_of b (uuid_ctr w), sw_item_id = i,
                             sw_direction = Some ''right'', sw_is_match = True\<rparr>]
       \<and> fst (handle_swipe b a w (JObj data)) =
           JsonResp 200 (JObj [(''is_match'', JBool False),
                               (''swiper_id'', JStr (uuid4_of b (uuid_ctr w)))])"
proof -
  note hs = handle_swipe_right [OF assms(1,2,3,4,5), of w]
  from assms(6) have "find (\<lambda>r. item_id r = i) (items (db w)) = None"
    by (simp add: find_None_iff)
  then show ?thesis
    by (simp add: hs no_match_response_def swiper_of_def)
qed

theorem unknown_item_swipe_recorded_witness:
  "swipes (db (snd (handle_swipe demo_backend demo_app demo_world (JObj (swipe_data ''right'' ''ghost'')))))
     = [\<lparr>sw_swiper_id = ''uuid-'', sw_item_id = ''ghost'',
         sw_direction = Some ''right'', sw_is_match = True\<rparr>]
   \<and> fst (handle_swipe demo_backend demo_app demo_world (JObj (swipe_data ''right'' ''ghost''))) =
       JsonResp 200 (JObj [(''is_match'', JBool False), (''swiper_id'', JStr ''uuid-'')])"
proof -
  have e: "engine demo_app = Some ''postgresql://db''"
    by (simp add: demo_app_def)
  have u: "uuid4_of demo_backend (uuid_ctr demo_world) = ''uuid-''"
    by (simp add: demo_backend_def demo_world_def)
  have miss: "truthy (dict_get (swipe_data ''right'' ''ghost'') ''item_id'' JNull)"
    by (simp add: swipe_data_get)
  have c: "cast_item_id demo_backend (dict_get (swipe_data ''right'' ''ghost'') ''item_id'' JNull)
            = Inr ''ghost''"
    by (simp add: swipe_data_get demo_cast)
  have n: "\<forall>r \<in> set (items (db demo_world)). item_id r \<noteq> ''ghost''"
    by (simp add: demo_world_def lamp_def)
  have s: "swipes (db demo_world) = []"
    by (simp add: demo_world_def)
  from unknown_item_swipe_recorded [OF e demo_ok swipe_data_get(1) miss c n]
  show ?thesis
    by (simp add: u s)
qed


section \<open>Listing creation: derived facts\<close>

lemma list_item_txn_Inr:
  assumes "list_item_txn b d now owner name phone ttl profile url = Inr (new_id, d')"
  shows "\<exists>kvs row. profile = JObj kvs
     \<and> d' = d\<lparr>items := items d @ [row]\<rparr>
     \<and> new_id = item_id row
     \<and> status row = Some ''available''
     \<and> title row = Some ttl
     \<and> provider_name row = Some name
     \<and> provider_phone row = Some phone
     \<and> owner_id row = Some owner
     \<and> image_url row = Some url
     \<and> bind_text b (dict_get kvs ''bio'' (JStr ''No bio provided.'')) = Inr (bio row)
     \<and> bind_text b (dict_get kvs ''category'' (JStr ''Misc'')) = Inr (category row)
     \<and> item_vector row = embedding b ''text-embedding-005''
                             (sql_concat (sql_concat (title row) (Some '' '')) (bio row))"
proof (cases profile)
  case (JObj kvs)
  show ?thesis
  proof (cases "bind_text b (dict_get kvs ''bio'' (JStr ''No bio provided.''))")
    case (Inl e)
    with assms show ?thesis
      by (simp add: list_item_txn_def JObj split: option.splits)
  next
    case bb: (Inr bio')
    show ?thesis
    proof (cases "bind_text b (dict_get kvs ''category'' (JStr ''Misc''))")
      case (Inl e)
      with assms bb show ?thesis
        by (simp add: list_item_txn_def JObj split: option.splits)
    next
      case bc: (Inr cat)
      define row where "row = \<lparr>item_id = gen_item_id b (items d),
            owner_id = Some owner,
            provider_name = Some name, provider_phone = Some phone, title = Some ttl,
            bio = bio', category = cat, image_url = Some url, status = Some ''available'',
            item_vector = embedding b ''text-embedding-005''
                            (sql_concat (sql_concat (Some ttl) (Some '' '')) bio'),
            created_at = now\<rparr>"
      have "list_item_txn b d now owner name phone ttl profile url =
              (case db_raises b InsertItem of
                 Some e \<Rightarrow> Inl e
               | None \<Rightarrow> (case db_raises b Commit of
                            Some e \<Rightarrow> Inl e
                          | None \<Rightarrow> Inr (item_id row, d\<lparr>items := items d @ [row]\<rparr>)))"
        by (cases "db_raises b InsertItem"; cases "db_raises b Commit")
           (simp_all add: list_item_txn_def JObj bb bc Let_def row_def)
      with assms have "Inr (item_id row, d\<lparr>items := items d @ [row]\<rparr>)
                         = (Inr (new_id, d') :: exn + string \<times> 'a database)"
        by (simp split: option.splits)
      then have res: "new_id = item_id row" "d' = d\<lparr>items := items d @ [row]\<rparr>"
        by simp_all
      have "profile = JObj kvs
     \<and> d' = d\<lparr>items := items d @ [row]\<rparr>
     \<and> new_id = item_id row
     \<and> status row = Some ''available''
     \<and> title row = Some ttl
     \<and> provider_name row = Some name
     \<and> provider_phone row = Some phone
     \<and> owner_id row = Some owner
     \<and> image_url row = Some url
     \<and> bind_text b (dict_get kvs ''bio'' (JStr ''No bio provided.'')) = Inr (bio row)
     \<and> bind_text b (dict_get kvs ''category'' (JStr ''Misc'')) = Inr (category row)
     \<and> item_vector row = embedding b ''text-embedding-005''
                             (sql_concat (sql_concat (title row) (Some '' '')) (bio row))"
        using res by (simp add: JObj bb bc) (simp add: row_def)
      then show ?thesis by blast
    qed
  qed
qed (use assms in \<open>simp_all add: list_item_txn_def\<close>)

lemma upload_to_gcs_db:
  "upload_to_gcs b a w file_bytes filename = (res, w1) \<Longrightarrow> db w1 = db w \<and> clock w1 = clock w"
  by (auto simp: upload_to_gcs_def uuid4_def log_call_def Let_def
           split: option.splits sum.splits)

lemma upload_to_gcs_Inr:
  "upload_to_gcs b a w file_bytes filename = (Inr url, w1) \<Longrightarrow>
     gcs_put b (bucket_name a) (''items/'' @ uuid4_of b (uuid_ctr w) @ ''-'' @ filename) file_bytes
       = Inr url
   \<and> blobs w1 = (''items/'' @ uuid4_of b (uuid_ctr w) @ ''-'' @ filename, file_bytes) # blobs w"
  by (auto simp: upload_to_gcs_def uuid4_def log_call_def Let_def
           split: option.splits sum.splits)

lemma list_item_200:
  assumes "fst (list_item b a w req) = JsonResp 200 body"
  shows "\<exists>filename image_bytes url w1 txt profile new_id d'.
      image req = Some (filename, image_bytes)
    \<and> upload_to_gcs b a w image_bytes filename = (Inr url, w1)
    \<and> generate_content b ''gemini-3-flash-preview'' image_bytes prompt = Inr (Some txt)
    \<and> json_loads b txt = Inr profile
    \<and> list_item_txn b (db w1) (clock w1) (uuid4_of b (uuid_ctr w1))
          (form_get (form req) ''provider_name'' ''Anonymous'')
          (form_get (form req) ''provider_phone'' ''No Phone'')
          (form_get (form req) ''item_title'' ''No Title'') profile url = Inr (new_id, d')
    \<and> body = JObj [(''status'', JStr ''success''), (''item_id'', JStr new_id),
                   (''image_url'', JStr url), (''profile'', profile)]
    \<and> db (snd (list_item b a w req)) = d'"
  using assms
  by (auto simp: list_item_def Let_def uuid4_def log_call_def not_initialized_def
        operation_failed_def split: option.splits prod.splits sum.splits)

lemma lamp_request_listing:
  "list_item demo_backend demo_app demo_world lamp_request =
     (JsonResp 200 (JObj [(''status'', JStr ''success''), (''item_id'', JStr ''item-i''),
         (''image_url'', JStr ''https://storage.googleapis.com/items/uuid--desk.jpg''),
         (''profile'', JObj [(''bio'', JStr ''Shine on''), (''category'', JStr ''Home''),
                             (''title'', JStr ''Mystery'')])]),
      \<lparr>db = \<lparr>items = [lamp,
                \<lparr>item_id = ''item-i'', owner_id = Some ''uuid-x'', provider_name = Some ''Bea'',
                 provider_phone = Some ''777'', title = Some ''Desk'', bio = Some ''Shine on'',
                 category = Some ''Home'',
                 image_url = Some ''https://storage.googleapis.com/items/uuid--desk.jpg'',
                 status = Some ''available'', item_vector = Some 13, created_at = 2\<rparr>],
              swipes = []\<rparr>,
        blobs = [(''items/uuid--desk.jpg'', [255, 216])], uuid_ctr = 2, clock = 2,
        calls = [GcsUpload ''items/uuid--desk.jpg'', GenerateContent, DbConnect]\<rparr>)"
  by (simp add: list_item_def upload_to_gcs_def list_item_txn_def demo_backend_def demo_app_def
        demo_world_def lamp_request_def uuid4_def log_call_def form_get_def dict_get_def
        bind_text_def Let_def numeral_2_eq_2)


section \<open>Listing creation: the claims\<close>

text \<open>
  Claim C2. A listing submission answered with 200 (the only success response of
  \<open>list_item\<close>) has appended exactly one row to \<open>items\<close> and left \<open>swipes\<close> alone. That
  row has status \<open>available\<close>; its title is the \<open>item_title\<close> form field (or the placeholder
  \<open>No Title\<close>), not a value of the generated profile; its bio and category are the
  \<open>bio\<close> and \<open>category\<close> entries of the profile parsed from the model's reply (or their
  placeholders), as bound to text; its \<open>item_vector\<close> is the database's
  \<open>embedding('text-embedding-005', title || ' ' || bio)\<close>; its \<open>image_url\<close> is the URL the
  upload returned. The response body holds that row's \<open>item_id\<close>, the \<open>image_url\<close> and the
  whole profile object.
\<close>

theorem successful_listing:
  assumes "fst (list_item b a w req) = JsonResp 200 body"
  shows "\<exists>filename image_bytes name url txt kvs row.
      image req = Some (filename, image_bytes)
    \<and> gcs_put b (bucket_name a) name image_bytes = Inr url
    \<and> generate_content b ''gemini-3-flash-preview'' image_bytes prompt = Inr (Some txt)
    \<and> json_loads b txt = Inr (JObj kvs)
    \<and> items (db (snd (list_item b a w req))) = items (db w) @ [row]
    \<and> swipes (db (snd (list_item b a w req))) = swipes (db w)
    \<and> status row = Some ''available''
    \<and> title row = Some (form_get (form req) ''item_title'' ''No Title'')
    \<and> bind_text b (dict_get kvs ''bio'' (JStr ''No bio provided.'')) = Inr (bio row)
    \<and> bind_text b (dict_get kvs ''category'' (JStr ''Misc'')) = Inr (category row)
    \<and> item_vector row = embedding b ''text-embedding-005''
                            (sql_concat (sql_concat (title row) (Some '' '')) (bio row))
    \<and> image_url row = Some url
    \<and> body = JObj [(''status'', JStr ''success''), (''item_id'', JStr (item_id row)),
                   (''image_url'', JStr url), (''profile'', JObj kvs)]"
proof -
  from list_item_200 [OF assms] obtain filename image_bytes url w1 reply profile new_id d' where
    img: "image req = Some (filename, image_bytes)"
    and up: "upload_to_gcs b a w image_bytes filename = (Inr url, w1)"
    and gen: "generate_content b ''gemini-3-flash-preview'' image_bytes prompt = Inr (Some reply)"
    and js: "json_loads b reply = Inr profile"
    and txn: "list_item_txn b (db w1) (clock w1) (uuid4_of b (uuid_ctr w1))
          (form_get (form req) ''provider_name'' ''Anonymous'')
          (form_get (form req) ''provider_phone'' ''No Phone'')
          (form_get (form req) ''item_title'' ''No Title'') profile url = Inr (new_id, d')"
    and body: "body = JObj [(''status'', JStr ''success''), (''item_id'', JStr new_id),
                   (''image_url'', JStr url), (''profile'', profile)]"
    and after: "db (snd (list_item b a w req)) = d'"
    by blast
  from list_item_txn_Inr [OF txn] obtain kvs row where
    p: "profile = JObj kvs"
    and d': "d' = (db w1)\<lparr>items := items (db w1) @ [row]\<rparr>"
    and row: "new_id = item_id row" "status row = Some ''available''"
      "title row = Some (form_get (form req) ''item_title'' ''No Title'')"
      "image_url row = Some url"
      "bind_text b (dict_get kvs ''bio'' (JStr ''No bio provided.'')) = Inr (bio row)"
      "bind_text b (dict_get kvs ''category'' (JStr ''Misc'')) = Inr (category row)"
      "item_vector row = embedding b ''text-embedding-005''
                             (sql_concat (sql_concat (title row) (Some '' '')) (bio row))"
    by blast
  from upload_to_gcs_db [OF up] have same: "db w1 = db w" by simp
  from upload_to_gcs_Inr [OF up] have put:
    "gcs_put b (bucket_name a) (''items/'' @ uuid4_of b (uuid_ctr w) @ ''-'' @ filename)
       image_bytes = Inr url"
    by simp
  have its: "items (db (snd (list_item b a w req))) = items (db w) @ [row]"
    and sws: "swipes (db (snd (list_item b a w req))) = swipes (db w)"
    by (simp_all add: after d' same)
  from img put gen js [unfolded p] its sws row(2,3,5,6,7,4) body [unfolded p row(1)]
  show ?thesis by blast
qed

theorem successful_listing_witness:
  "fst (list_item demo_backend demo_app demo_world lamp_request) =
     JsonResp 200 (JObj [(''status'', JStr ''success''), (''item_id'', JStr ''item-i''),
         (''image_url'', JStr ''https://storage.googleapis.com/items/uuid--desk.jpg''),
         (''profile'', JObj [(''bio'', JStr ''Shine on''), (''category'', JStr ''Home''),
                             (''title'', JStr ''Mystery'')])])
   \<and> (\<exists>row. items (db (snd (list_item demo_backend demo_app demo_world lamp_request)))
                 = [lamp, row]
             \<and> status row = Some ''available'' \<and> title row = Some ''Desk''
             \<and> bio row = Some ''Shine on'' \<and> category row = Some ''Home''
             \<and> item_vector row = Some 13)"
proof -
  have ok: "fst (list_item demo_backend demo_app demo_world lamp_request) =
     JsonResp 200 (JObj [(''status'', JStr ''success''), (''item_id'', JStr ''item-i''),
         (''image_url'', JStr ''https://storage.googleapis.com/items/uuid--desk.jpg''),
         (''profile'', JObj [(''bio'', JStr ''Shine on''), (''category'', JStr ''Home''),
                             (''title'', JStr ''Mystery'')])])"
    by (simp add: lamp_request_listing)
  from successful_listing [OF ok] obtain kvs reply row where
    js: "json_loads demo_backend reply = Inr (JObj kvs)"
    and its: "items (db (snd (list_item demo_backend demo_app demo_world lamp_request)))
           = items (db demo_world) @ [row]"
    and st: "status row = Some ''available''"
    and ti: "title row = Some (form_get (form lamp_request) ''item_title'' ''No Title'')"
    and bi: "bind_text demo_backend (dict_get kvs ''bio'' (JStr ''No bio provided.''))
               = Inr (bio row)"
    and ca: "bind_text demo_backend (dict_get kvs ''category'' (JStr ''Misc''))
               = Inr (category row)"
    and ve: "item_vector row = embedding demo_backend ''text-embedding-005''
                            (sql_concat (sql_concat (title row) (Some '' '')) (bio row))"
    by blast
  from js have kvs: "kvs = [(''bio'', JStr ''Shine on''), (''category'', JStr ''Home''),
                             (''title'', JStr ''Mystery'')]"
    by (simp add: demo_backend_def)
  have ti': "title row = Some ''Desk''"
    using ti by (simp add: lamp_request_def form_get_def)
  have bi': "bio row = Some ''Shine on''"
    using bi by (simp add: kvs dict_get_def bind_text_def)
  have ca': "category row = Some ''Home''"
    using ca by (simp add: kvs dict_get_def bind_text_def)
  have ve': "item_vector row = Some 13"
    using ve by (simp add: ti' bi' demo_backend_def)
  have its': "items (db (snd (list_item demo_backend demo_app demo_world lamp_request)))
           = [lamp, row]"
    using its by (simp add: demo_world_def)
  from ok its' st ti' bi' ca' ve' show ?thesis by blast
qed

text \<open>
  Claim C5, as amended. A listing submission without an \<open>image\<close> file part leaves the world
  exactly as it was: no row in either table, no blob in the object store, no call to the
  object store, the generation model or the database, and no UUID drawn. The answer is
  400 when the engine was initialised, and 500 with \<open>Database engine not initialized.\<close>
  when it was not.
\<close>

theorem listing_without_image:
  assumes "image req = None"
  shows "snd (list_item b a w req) = w
       \<and> (engine a \<noteq> None \<longrightarrow>
            fst (list_item b a w req) =
              JsonResp 400 (JObj [(''error'', JStr ''No image provided'')]))
       \<and> (engine a = None \<longrightarrow>
            fst (list_item b a w req) =
              JsonResp 500 (JObj [(''error'', JStr ''Database engine not initialized.'')]))"
  using assms
  by (cases "engine a") (simp_all add: list_item_def not_initialized_def)

theorem listing_without_image_witness:
  "fst (list_item demo_backend demo_app demo_world \<lparr>image = None, form = []\<rparr>)
     = JsonResp 400 (JObj [(''error'', JStr ''No image provided'')])
   \<and> snd (list_item demo_backend demo_app demo_world \<lparr>image = None, form = []\<rparr>) = demo_world
   \<and> fst (list_item demo_backend engineless_app demo_world \<lparr>image = None, form = []\<rparr>)
     = JsonResp 500 (JObj [(''error'', JStr ''Database engine not initialized.'')])
   \<and> snd (list_item demo_backend engineless_app demo_world \<lparr>image = None, form = []\<rparr>)
     = demo_world"
proof -
  have e: "engine demo_app \<noteq> None" "engine engineless_app = None"
    by (simp_all add: demo_app_def engineless_app_def)
  have i: "image \<lparr>image = None, form = []\<rparr> = None"
    by simp
  from listing_without_image [OF i, of demo_backend demo_app demo_world]
    listing_without_image [OF i, of demo_backend engineless_app demo_world]
  show ?thesis
    by (simp add: e)
qed

text \<open>
  The claim as the specification states it (400 for every submission without an image)
  fails in a process that came up without an engine: the answer is 500.
\<close>

theorem listing_without_image_counterexample:
  "image \<lparr>image = None, form = []\<rparr> = None
   \<and> fst (list_item demo_backend engineless_app demo_world \<lparr>image = None, form = []\<rparr>)
     = JsonResp 500 (JObj [(''error'', JStr ''Database engine not initialized.'')])"
  by (simp add: list_item_def not_initialized_def engineless_app_def)

section \<open>Semantic search: derived facts\<close>

lemma search_candidates_sound:
  "(r, iv) \<in> set (search_candidates b d q) \<Longrightarrow>
     r \<in> set (items d) \<and> status r = Some ''available'' \<and> item_vector r = Some iv"
  unfolding search_candidates_def
  by (induction "items d" arbitrary: d) (auto simp: List.map_filter_def split: option.splits if_splits)

lemma hits_all_scored:
  "hits b (map (\<lambda>(r, s). (r, Some s)) rs) = Inr (map (\<lambda>(r, s). hit b r s) rs)"
  by (induction rs) (simp_all add: case_prod_beta)

lemma hits_unscored:
  "hits b (map (\<lambda>(r, iv). (r, None)) xs) = Inr hs \<Longrightarrow> xs = [] \<and> hs = []"
  by (cases xs) (auto simp: case_prod_beta)

lemma search_200:
  assumes "map_of args ''query'' = Some q" "q \<noteq> []"
    and "fst (search b a w args) = JsonResp 200 body"
  shows "\<exists>hs. hits b (search_sql b (db w) q) = Inr hs \<and> body = JArr hs"
  using assms
  by (auto simp: search_def log_call_def not_initialized_def Let_def
           split: option.splits sum.splits)

lemma sorted_scores:
  fixes f :: "'a::linorder \<Rightarrow> 'a"
  assumes "sorted (map snd rvs)" and "\<And>x y. x \<le> y \<Longrightarrow> f y \<le> f x"
  shows "sorted (rev (map (\<lambda>(r, dist). f dist) rvs))"
proof -
  from assms(1) have "sorted_wrt (\<lambda>p p'. snd p \<le> snd p') rvs"
    by (simp add: sorted_wrt_map)
  then have "sorted_wrt (\<lambda>p p'. f (snd p') \<le> f (snd p)) rvs"
    by (rule sorted_wrt_mono_rel [rotated]) (simp add: assms(2))
  then show ?thesis
    by (simp add: rev_map [symmetric] sorted_wrt_rev sorted_wrt_map case_prod_beta)
qed

lemma shop_search:
  "search demo_backend demo_app shop_world [(''query'', ''lamp'')] =
    (JsonResp 200 (JArr
       [JObj [(''id'', JStr ''item-s''), (''title'', JStr ''Stool''), (''bio'', JStr ''Sturdy''),
              (''category'', JStr ''Home''), (''image_url'', JStr ''https://img/stool''),
              (''score'', JNum 0)],
        JObj [(''id'', JStr ''item-''), (''title'', JStr ''Lamp''), (''bio'', JStr ''Bright''),
              (''category'', JStr ''Home''), (''image_url'', JStr ''https://img/lamp''),
              (''score'', JNum (- 2))]]),
     shop_world\<lparr>calls := [DbConnect]\<rparr>)"
  by (simp add: search_def search_sql_def search_candidates_def hit_def match_prompt_def
        demo_backend_def demo_app_def shop_world_def lamp_def stool_def log_call_def Let_def)


section \<open>Semantic search: the claims\<close>

text \<open>
  Claim C3. A search with a non-empty query that is answered with 200 (any other answer is
  an error response and returns no item) returns a list of at most five hits. Each hit is a row of \<open>items\<close>
  with status \<open>available\<close> and a non-null vector, and its \<open>score\<close> is \<open>round(1 - d, 3)\<close> where
  \<open>d\<close> is the cosine distance between the row's vector and the embedding of the query.
  The hits come in ascending order of that distance; hence, rounding and subtraction from
  one being monotone, in descending order of score. The number type, the distance and the
  rounding are parameters of the model.
\<close>

theorem search_results:
  assumes "map_of args ''query'' = Some q" and "q \<noteq> []"
    and "fst (search b a w args) = JsonResp 200 body"
  shows "\<exists>rvs.
      body = JArr (map (\<lambda>(r, dist).
                JObj [(''id'', JStr (item_id r)), (''title'', jtext (title r)),
                      (''bio'', jtext (bio r)), (''category'', jtext (category r)),
                      (''image_url'', jtext (image_url r)),
                      (''score'', JNum (round3 b (1 - dist)))]) rvs)
    \<and> length rvs \<le> 5
    \<and> sorted (map snd rvs)
    \<and> (\<forall>(r, dist) \<in> set rvs.
          r \<in> set (items (db w)) \<and> status r = Some ''available''
          \<and> (\<exists>iv qv. item_vector r = Some iv
                \<and> embedding b ''text-embedding-005'' (Some q) = Some qv
                \<and> dist = cosine_distance b iv qv))
    \<and> ((\<forall>x y. x \<le> y \<longrightarrow> round3 b (1 - y) \<le> round3 b (1 - x)) \<longrightarrow>
          sorted (rev (map (\<lambda>(r, dist). round3 b (1 - dist)) rvs)))"
proof -
  from search_200 [OF assms] obtain hs where
    hs: "hits b (search_sql b (db w) q) = Inr hs" and body: "body = JArr hs"
    by blast
  show ?thesis
  proof (cases "embedding b ''text-embedding-005'' (Some q)")
    case None
    with hs have "hs = []"
      by (auto simp: search_sql_def dest: hits_unscored)
    with body show ?thesis
      by (intro exI [of _ "[]"]) simp
  next
    case (Some qv)
    define top where
      "top = take 5 (sort_key (\<lambda>(r, iv). cosine_distance b iv qv) (search_candidates b (db w) q))"
    define rvs where "rvs = map (\<lambda>(r, iv). (r, cosine_distance b iv qv)) top"
    have sql: "search_sql b (db w) q =
                 map (\<lambda>(r, s). (r, Some s)) (map (\<lambda>(r, dist). (r, 1 - dist)) rvs)"
      by (simp add: search_sql_def Some top_def rvs_def case_prod_beta comp_def)
    from hs have "hs = map (\<lambda>(r, s). hit b r s) (map (\<lambda>(r, dist). (r, 1 - dist)) rvs)"
      unfolding sql hits_all_scored by simp
    with body have 1: "body = JArr (map (\<lambda>(r, dist).
                JObj [(''id'', JStr (item_id r)), (''title'', jtext (title r)),
                      (''bio'', jtext (bio r)), (''category'', jtext (category r)),
                      (''image_url'', jtext (image_url r)),
                      (''score'', JNum (round3 b (1 - dist)))]) rvs)"
      by (simp add: hit_def case_prod_beta comp_def)
    have 2: "length rvs \<le> 5"
      by (simp add: rvs_def top_def)
    have "map snd rvs = take 5 (map (\<lambda>(r, iv). cosine_distance b iv qv)
             (sort_key (\<lambda>(r, iv). cosine_distance b iv qv) (search_candidates b (db w) q)))"
      by (simp add: rvs_def top_def take_map case_prod_beta comp_def)
    then have 3: "sorted (map snd rvs)"
      by (simp only: sorted_wrt_take sorted_sort_key)
    have 4: "\<forall>(r, dist) \<in> set rvs.
          r \<in> set (items (db w)) \<and> status r = Some ''available''
          \<and> (\<exists>iv qv. item_vector r = Some iv
                \<and> embedding b ''text-embedding-005'' (Some q) = Some qv
                \<and> dist = cosine_distance b iv qv)"
    proof (clarify)
      fix r dist assume "(r, dist) \<in> set rvs"
      then obtain iv where "(r, iv) \<in> set top" and d: "dist = cosine_distance b iv qv"
        by (auto simp: rvs_def)
      then have "(r, iv) \<in> set (search_candidates b (db w) q)"
        unfolding top_def by (auto dest: in_set_takeD)
      from search_candidates_sound [OF this] d Some
      show "r \<in> set (items (db w)) \<and> status r = Some ''available''
          \<and> (\<exists>iv qv. item_vector r = Some iv
                \<and> embedding b ''text-embedding-005'' (Some q) = Some qv
                \<and> dist = cosine_distance b iv qv)"
        by blast
    qed
    have 5: "(\<forall>x y. x \<le> y \<longrightarrow> round3 b (1 - y) \<le> round3 b (1 - x)) \<longrightarrow>
          sorted (rev (map (\<lambda>(r, dist). round3 b (1 - dist)) rvs))"
      using sorted_scores [OF 3, of "\<lambda>d. round3 b (1 - d)"] by blast
    from 1 2 3 4 5 show ?thesis by blast
  qed
qed

theorem search_results_witness:
  "fst (search demo_backend demo_app shop_world [(''query'', ''lamp'')]) =
    JsonResp 200 (JArr
       [JObj [(''id'', JStr ''item-s''), (''title'', JStr ''Stool''), (''bio'', JStr ''Sturdy''),
              (''category'', JStr ''Home''), (''image_url'', JStr ''https://img/stool''),
              (''score'', JNum 0)],
        JObj [(''id'', JStr ''item-''), (''title'', JStr ''Lamp''), (''bio'', JStr ''Bright''),
              (''category'', JStr ''Home''), (''image_url'', JStr ''https://img/lamp''),
              (''score'', JNum (- 2))]])
   \<and> (\<exists>rvs :: (int item \<times> int) list.
          fst (search demo_backend demo_app shop_world [(''query'', ''lamp'')]) =
               JsonResp 200 (JArr (map (\<lambda>(r, dist).
                 JObj [(''id'', JStr (item_id r)), (''title'', jtext (title r)),
                       (''bio'', jtext (bio r)), (''category'', jtext (category r)),
                       (''image_url'', jtext (image_url r)),
                       (''score'', JNum (round3 demo_backend (1 - dist)))]) rvs))
            \<and> length rvs \<le> 5
            \<and> sorted (map snd rvs)
            \<and> sorted (rev (map (\<lambda>(r, dist). round3 demo_backend (1 - dist)) rvs)))"
  (is "?resp = JsonResp 200 ?body \<and> (\<exists>rvs. ?P rvs)")
proof -
  have q: "map_of [(''query'', ''lamp'')] ''query'' = Some ''lamp''" and ne: "''lamp'' \<noteq> []"
    by simp_all
  have ok: "?resp = JsonResp 200 ?body"
    by (simp add: shop_search)
  have mono: "\<forall>x y :: int. x \<le> y \<longrightarrow>
                round3 demo_backend (1 - y) \<le> round3 demo_backend (1 - x)"
    by (simp add: demo_backend_def)
  from search_results [OF q ne ok]
  have "\<exists>rvs. ?P rvs"
  proof (elim exE conjE)
    fix rvs :: "(int item \<times> int) list"
    assume b: "?body = JArr (map (\<lambda>(r, dist).
                 JObj [(''id'', JStr (item_id r)), (''title'', jtext (title r)),
                       (''bio'', jtext (bio r)), (''category'', jtext (category r)),
                       (''image_url'', jtext (image_url r)),
                       (''score'', JNum (round3 demo_backend (1 - dist)))]) rvs)"
      and l: "length rvs \<le> 5" and s: "sorted (map snd rvs)"
      and m: "(\<forall>x y. x \<le> y \<longrightarrow> round3 demo_backend (1 - y) \<le> round3 demo_backend (1 - x))
                \<longrightarrow> sorted (rev (map (\<lambda>(r, dist). round3 demo_backend (1 - dist)) rvs))"
    from m mono have s': "sorted (rev (map (\<lambda>(r, dist). round3 demo_backend (1 - dist)) rvs))"
      by (rule mp)
    have "?P rvs"
      unfolding ok b [symmetric] using l s s' by simp
    then show ?thesis ..
  qed
  with ok show ?thesis ..
qed

text \<open>
  Claim C7, as amended. A search whose \<open>query\<close> parameter is missing or empty leaves the
  world exactly as it was: in particular no database connection is opened and no model
  is called. The answer is the empty list with status 200 when the engine was
  initialised, and 500 with \<open>Database engine not initialized.\<close> when it was not.
\<close>

theorem empty_query_returns_nothing:
  assumes "map_of args ''query'' = None \<or> map_of args ''query'' = Some []"
  shows "snd (search b a w args) = w
       \<and> (engine a \<noteq> None \<longrightarrow> fst (search b a w args) = JsonResp 200 (JArr []))
       \<and> (engine a = None \<longrightarrow>
            fst (search b a w args) =
              JsonResp 500 (JObj [(''error'', JStr ''Database engine not initialized.'')]))"
  using assms
  by (cases "engine a") (auto simp: search_def not_initialized_def)

theorem empty_query_returns_nothing_witness:
  "fst (search demo_backend demo_app demo_world [(''query'', '''')]) = JsonResp 200 (JArr [])
   \<and> snd (search demo_backend demo_app demo_world [(''query'', '''')]) = demo_world
   \<and> fst (search demo_backend demo_app demo_world []) = JsonResp 200 (JArr [])
   \<and> snd (search demo_backend demo_app demo_world []) = demo_world
   \<and> fst (search demo_backend engineless_app demo_world []) =
       JsonResp 500 (JObj [(''error'', JStr ''Database engine not initialized.'')])
   \<and> snd (search demo_backend engineless_app demo_world []) = demo_world"
proof -
  have e: "engine demo_app \<noteq> None" "engine engineless_app = None"
    by (simp_all add: demo_app_def engineless_app_def)
  have q1: "map_of [(''query'', '''')] ''query'' = None \<or> map_of [(''query'', '''')] ''query'' = Some []"
    by simp
  have q2: "map_of ([] :: (string \<times> string) list) ''query'' = None
            \<or> map_of ([] :: (string \<times> string) list) ''query'' = Some []"
    by simp
  from empty_query_returns_nothing [OF q1, of demo_backend demo_app demo_world]
    empty_query_returns_nothing [OF q2, of demo_backend demo_app demo_world]
    empty_query_returns_nothing [OF q2, of demo_backend engineless_app demo_world]
  show ?thesis
    by (simp add: e)
qed

text \<open>
  The claim as the specification states it (the empty list with 200, not an error, for
  every such request) fails in a process that came up without an engine: the answer to a
  search without a query is the error response 500.
\<close>

theorem empty_query_returns_nothing_counterexample:
  "map_of ([] :: (string \<times> string) list) ''query'' = None
   \<and> fst (search demo_backend engineless_app demo_world []) =
       JsonResp 500 (JObj [(''error'', JStr ''Database engine not initialized.'')])"
  by (simp add: search_def not_initialized_def engineless_app_def)

section \<open>Start-up: derived facts\<close>

lemma startup_no_url:
  assumes "DATABASE_URL ev = None \<or> DATABASE_URL ev = Some []"
  shows "engine (fst (startup b ev)) = None"
  using assms
  by (auto simp: startup_def Let_def split: option.splits)

lemma startup_no_url_printed:
  assumes "DATABASE_URL ev = None \<or> DATABASE_URL ev = Some []"
    and "genai_new b (GEMINI_API_KEY ev) = None" and "storage_new b = None"
  shows "snd (startup b ev) = Some (ValueError ''DATABASE_URL is not set in environment variables.'')"
  using assms
  by (auto simp: startup_def Let_def split: option.splits)

lemma main_serving:
  "PORT ev = None \<Longrightarrow> main b ev = Serving (fst (startup b ev)) 8080"
  "PORT ev = Some p \<Longrightarrow> py_int b p = Inr n \<Longrightarrow> main b ev = Serving (fst (startup b ev)) n"
  by (simp_all add: main_def split: prod.splits)

lemma no_engine:
  assumes "engine a = None"
  shows "home b a w = (not_initialized, w)"
    and "get_items b a w = (not_initialized, w)"
    and "list_item b a w req = (not_initialized, w)"
    and "search b a w args = (not_initialized, w)"
    and "handle_swipe b a w data = (not_initialized, w)"
    and "get_matches b a w args = (not_initialized, w)"
  using assms
  by (simp_all add: home_def get_items_def list_item_def search_def handle_swipe_def
        get_matches_def)


section \<open>Start-up: the claim\<close>

text \<open>
  Claim C6, as amended. If \<open>DATABASE_URL\<close> is absent (unset or empty) at process start, the
  \<open>ValueError\<close> raised for it is caught by the module's own \<open>except\<close> clause, which prints it
  when the two client constructors before it succeeded. Start-up is not fatal: the engine
  stays \<open>None\<close>, the script goes on to run the web application (on port 8080, or on \<open>PORT\<close>
  when it parses), and every handler answers 500 with
  \<open>Database engine not initialized.\<close> and does nothing else.
\<close>

theorem missing_database_url:
  assumes "DATABASE_URL ev = None \<or> DATABASE_URL ev = Some []"
  shows "engine (fst (startup b ev)) = None
    \<and> (genai_new b (GEMINI_API_KEY ev) = None \<and> storage_new b = None \<longrightarrow>
         snd (startup b ev) =
           Some (ValueError ''DATABASE_URL is not set in environment variables.''))
    \<and> (PORT ev = None \<longrightarrow> main b ev = Serving (fst (startup b ev)) 8080)
    \<and> (\<forall>p n. PORT ev = Some p \<and> py_int b p = Inr n \<longrightarrow>
          main b ev = Serving (fst (startup b ev)) n)
    \<and> home b (fst (startup b ev)) w =
         (JsonResp 500 (JObj [(''error'', JStr ''Database engine not initialized.'')]), w)
    \<and> get_items b (fst (startup b ev)) w =
         (JsonResp 500 (JObj [(''error'', JStr ''Database engine not initialized.'')]), w)
    \<and> list_item b (fst (startup b ev)) w req =
         (JsonResp 500 (JObj [(''error'', JStr ''Database engine not initialized.'')]), w)
    \<and> search b (fst (startup b ev)) w args =
         (JsonResp 500 (JObj [(''error'', JStr ''Database engine not initialized.'')]), w)
    \<and> handle_swipe b (fst (startup b ev)) w data =
         (JsonResp 500 (JObj [(''error'', JStr ''Database engine not initialized.'')]), w)
    \<and> get_matches b (fst (startup b ev)) w args' =
         (JsonResp 500 (JObj [(''error'', JStr ''Database engine not initialized.'')]), w)"
proof -
  note e = startup_no_url [OF assms, of b]
  show ?thesis
    using e startup_no_url_printed [OF assms, of b] main_serving [where ev = ev and b = b]
    by (simp add: no_engine [OF e] not_initialized_def)
qed

theorem missing_database_url_witness:
  "engine (fst (startup demo_backend bare_env)) = None
   \<and> snd (startup demo_backend bare_env) =
       Some (ValueError ''DATABASE_URL is not set in environment variables.'')
   \<and> main demo_backend bare_env = Serving (fst (startup demo_backend bare_env)) 8080
   \<and> main demo_backend (bare_env\<lparr>DATABASE_URL := Some '''', PORT := Some ''9000''\<rparr>) =
       Serving (fst (startup demo_backend
                  (bare_env\<lparr>DATABASE_URL := Some '''', PORT := Some ''9000''\<rparr>))) 9000
   \<and> handle_swipe demo_backend (fst (startup demo_backend bare_env)) demo_world
         (JObj (swipe_data ''right'' ''item-'')) =
         (JsonResp 500 (JObj [(''error'', JStr ''Database engine not initialized.'')]), demo_world)"
proof -
  have u1: "DATABASE_URL bare_env = None \<or> DATABASE_URL bare_env = Some []"
    by (simp add: bare_env_def)
  have u2: "DATABASE_URL (bare_env\<lparr>DATABASE_URL := Some '''', PORT := Some ''9000''\<rparr>) = None
          \<or> DATABASE_URL (bare_env\<lparr>DATABASE_URL := Some '''', PORT := Some ''9000''\<rparr>) = Some []"
    by simp
  have c: "genai_new demo_backend k = None" "storage_new demo_backend = None"
    "py_int demo_backend ''9000'' = Inr 9000" for k
    by (simp_all add: demo_backend_def)
  have p: "PORT bare_env = None"
    by (simp add: bare_env_def)
  from missing_database_url [OF u1, of demo_backend demo_world]
    missing_database_url [OF u2, of demo_backend demo_world]
  show ?thesis
    by (simp add: c p)
qed

text \<open>
  The claim as the specification states it (absence of the database URL is fatal, the
  process does not come up serving) fails: with \<open>DATABASE_URL\<close> unset the process serves,
  and answers a feed request with 500.
\<close>

theorem missing_database_url_counterexample:
  "DATABASE_URL bare_env = None
   \<and> main demo_backend bare_env = Serving engineless_app 8080
   \<and> fst (get_items demo_backend engineless_app demo_world) =
       JsonResp 500 (JObj [(''error'', JStr ''Database engine not initialized.'')])"
  by (simp add: main_def startup_def bare_env_def engineless_app_def demo_backend_def
        get_items_def not_initialized_def Let_def)

end
